theory Spec2Isabelle
  imports Main "HOL-Library.Sublist" "HOL-Library.AList" "HOL-Library.Monad_Syntax"
begin

section \<open>Data model\<close>

text \<open>
  The six storage kinds of \<^verbatim>\<open>enum puflib_storage_type\<close>, the status levels, the
  provisioning outcomes and the module status flags. A C enum can carry a value
  outside its enumerators, so the status level has a constructor for those.
\<close>

datatype puflib_storage_type =
    STORAGE_TEMP_FILE | STORAGE_TEMP_DIR
  | STORAGE_FINAL_FILE | STORAGE_FINAL_DIR
  | STORAGE_DISABLED_FILE | STORAGE_DISABLED_DIR

datatype puflib_status_level =
  STATUS_INFO | STATUS_WARN | STATUS_ERROR | STATUS_UNRECOGNIZED nat

datatype provisioning_status =
  PROVISION_COMPLETE | PROVISION_INCOMPLETE | PROVISION_ERROR

datatype module_flag = MODULE_DISABLED | MODULE_PROVISIONED

datatype module_status = MODULE_STATUS_ERROR | MODULE_STATUS "module_flag set"

text \<open>
  The data fields of \<^verbatim>\<open>module_info\<close>; its three function pointers are the
  functions of the module, which the model calls directly.
\<close>

record module_info =
  name :: string
  author :: string
  desc :: string

subsection \<open>The operating system as seen by the library\<close>

text \<open>
  A path is the list of its components; the empty path is the file system root.
  The file system is an association list from paths to nodes, a regular file
  with its content or a directory.
\<close>

type_synonym path = "string list"

datatype node = File string | Dir

datatype errno_val =
    E0 | EPERM | ENOENT | EIO | EBADF | ENOMEM | EACCES | EBUSY | EEXIST
  | ENOTDIR | EISDIR | ENOSPC | EROFS | ENOTEMPTY

text \<open>
  The system calls the environment can refuse (permissions, read-only media,
  I/O errors, exhausted resources). \<open>faults w op p = Some e\<close> says that
  operation \<open>op\<close> on path \<open>p\<close> is refused with error \<open>e\<close>, before the call
  looks at the file system.
\<close>

datatype os_op = OP_MKDIR | OP_CREAT | OP_OPEN | OP_WRITE | OP_UNLINK | OP_RMDIR

text \<open>
  A query handler receives the module, the key, the prompt, the buffer and its
  capacity; it returns its failure signal and the buffer as it left it.
\<close>

type_synonym puflib_query_handler =
  "module_info \<Rightarrow> string \<Rightarrow> string \<Rightarrow> string \<Rightarrow> nat \<Rightarrow> bool \<times> string"

text \<open>
  A status handler is a function of the caller that takes a string and returns
  nothing; it is taken to return. All the library can observe of it is that it
  was called: the strings it is handed are recorded, in order, in \<open>status_log\<close>.
\<close>

datatype puflib_status_handler = HANDLER

text \<open>
  The state a call runs in: the file system, \<^verbatim>\<open>errno\<close>, the environment's
  faults, the path derivation of the platform layer, which report strings cannot
  be allocated, the two handler slots of \<^verbatim>\<open>puflib.c\<close> (None is the NULL they
  start with), and the strings handed to the status handler so far.
\<close>

record world =
  fs :: "(path \<times> node) list"
  errno :: errno_val
  faults :: "os_op \<Rightarrow> path \<Rightarrow> errno_val option"
  nv_store_path :: "string \<Rightarrow> puflib_storage_type \<Rightarrow> path option"
  asprintf_fails :: "string \<Rightarrow> bool"
  STATUS_CALLBACK :: "puflib_status_handler option"
  status_log :: "string list"
  QUERY_CALLBACK :: "puflib_query_handler option"

datatype fmode = MODE_RPLUS | MODE_W

text \<open>
  An open stream: the path it was opened on, the file position at which its
  pending output starts, and the pending output, which \<^verbatim>\<open>stdio\<close> keeps in the
  stream's buffer until the stream is flushed.
\<close>

datatype FILE = FILE (fpath: path) (fpos: nat) (fbuf: string)

definition node_at :: "world \<Rightarrow> path \<Rightarrow> node option" where
  "node_at w p = (if p = [] then Some Dir else map_of (fs w) p)"

definition set_errno :: "errno_val \<Rightarrow> world \<Rightarrow> world" where
  "set_errno e w = w\<lparr>errno := e\<rparr>"

definition put_node :: "path \<Rightarrow> node \<Rightarrow> world \<Rightarrow> world" where
  "put_node p n w = w\<lparr>fs := AList.update p n (fs w)\<rparr>"

definition del_node :: "path \<Rightarrow> world \<Rightarrow> world" where
  "del_node p w = w\<lparr>fs := AList.delete p (fs w)\<rparr>"

text \<open>Why a new entry cannot be made at \<open>p\<close>: its parent is missing or is a file.\<close>

definition parent_error :: "world \<Rightarrow> path \<Rightarrow> errno_val option" where
  "parent_error w p =
     (case node_at w (butlast p) of
        None \<Rightarrow> Some ENOENT
      | Some (File c) \<Rightarrow> Some ENOTDIR
      | Some Dir \<Rightarrow> None)"

text \<open>\<^verbatim>\<open>mkdir(2)\<close>; the result is True on failure, with \<^verbatim>\<open>errno\<close> set.\<close>

definition os_mkdir :: "path \<Rightarrow> world \<Rightarrow> bool \<times> world" where
  "os_mkdir p w =
     (case faults w OP_MKDIR p of
        Some e \<Rightarrow> (True, set_errno e w)
      | None \<Rightarrow>
          if node_at w p \<noteq> None then (True, set_errno EEXIST w)
          else (case parent_error w p of
                  Some e \<Rightarrow> (True, set_errno e w)
                | None \<Rightarrow> (False, put_node p Dir w)))"

text \<open>\<^verbatim>\<open>open(2)\<close> with \<^verbatim>\<open>O_CREAT | O_EXCL\<close>: makes a new empty file.\<close>

definition os_creat_excl :: "path \<Rightarrow> world \<Rightarrow> bool \<times> world" where
  "os_creat_excl p w =
     (case faults w OP_CREAT p of
        Some e \<Rightarrow> (True, set_errno e w)
      | None \<Rightarrow>
          if node_at w p \<noteq> None then (True, set_errno EEXIST w)
          else (case parent_error w p of
                  Some e \<Rightarrow> (True, set_errno e w)
                | None \<Rightarrow> (False, put_node p (File []) w)))"

text \<open>
  \<^verbatim>\<open>fopen\<close> in the two modes the sources use. \<^verbatim>\<open>"r+"\<close> needs an existing
  regular file and keeps its content; \<^verbatim>\<open>"w"\<close> truncates it, or makes it.
\<close>

definition fopen :: "path \<Rightarrow> fmode \<Rightarrow> world \<Rightarrow> FILE option \<times> world" where
  "fopen p m w =
     (case faults w OP_OPEN p of
        Some e \<Rightarrow> (None, set_errno e w)
      | None \<Rightarrow>
          (case node_at w p of
             Some Dir \<Rightarrow> (None, set_errno EISDIR w)
           | Some (File c) \<Rightarrow>
               (case m of
                  MODE_RPLUS \<Rightarrow> (Some (FILE p 0 []), w)
                | MODE_W \<Rightarrow> (Some (FILE p 0 []), put_node p (File []) w))
           | None \<Rightarrow>
               (case m of
                  MODE_RPLUS \<Rightarrow> (None, set_errno ENOENT w)
                | MODE_W \<Rightarrow>
                    (case os_creat_excl p w of
                       (True, w') \<Rightarrow> (None, w')
                     | (False, w') \<Rightarrow> (Some (FILE p 0 []), w')))))"

text \<open>
  \<^verbatim>\<open>write(2)\<close> at an offset: the bytes replace what is there and extend the file
  past its end. True on failure.
\<close>

definition os_write :: "path \<Rightarrow> nat \<Rightarrow> string \<Rightarrow> world \<Rightarrow> bool \<times> world" where
  "os_write p pos s w =
     (case faults w OP_WRITE p of
        Some e \<Rightarrow> (True, set_errno e w)
      | None \<Rightarrow>
          (case node_at w p of
             Some (File c) \<Rightarrow>
               (False, put_node p (File (take pos c @ s @ drop (pos + length s) c)) w)
           | Some Dir \<Rightarrow> (True, set_errno EBADF w)
           | None \<Rightarrow> (True, set_errno EBADF w)))"

text \<open>
  \<^verbatim>\<open>fprintf\<close> and \<^verbatim>\<open>fputs\<close> put their bytes into the stream's buffer; the few
  bytes the sources write never fill it, so the calls succeed (False) and the
  file is not touched yet. The string given to \<open>fprintf\<close> is what its format
  and arguments expand to.
\<close>

definition fprintf :: "FILE \<Rightarrow> string \<Rightarrow> bool \<times> FILE" where
  "fprintf f expanded = (False, FILE (fpath f) (fpos f) (fbuf f @ expanded))"

definition fputs :: "string \<Rightarrow> FILE \<Rightarrow> bool \<times> FILE" where
  "fputs s f = (False, FILE (fpath f) (fpos f) (fbuf f @ s))"

text \<open>
  \<^verbatim>\<open>fflush\<close> writes the pending output out; this is where a write error
  shows. \<^verbatim>\<open>fclose\<close> flushes, and the sources ignore what it returns, so an
  error of the write is lost there. \<^verbatim>\<open>rewind\<close> flushes and goes back to the
  start of the file; the sources call it on a stream without pending output.
\<close>

definition fflush :: "FILE \<Rightarrow> world \<Rightarrow> bool \<times> FILE \<times> world" where
  "fflush f w =
     (if fbuf f = [] then (False, f, w)
      else (case os_write (fpath f) (fpos f) (fbuf f) w of
              (e, w') \<Rightarrow> (e, FILE (fpath f) (fpos f + length (fbuf f)) [], w')))"

definition fclose :: "FILE \<Rightarrow> world \<Rightarrow> world" where
  "fclose f w = snd (snd (fflush f w))"

definition rewind :: "FILE \<Rightarrow> world \<Rightarrow> FILE \<times> world" where
  "rewind f w = (case fflush f w of (e, f', w') \<Rightarrow> (FILE (fpath f') 0 [], w'))"

text \<open>
  \<^verbatim>\<open>remove(3)\<close>: unlinks a file, removes an empty directory other than the
  root. True on failure.
\<close>

definition has_children :: "world \<Rightarrow> path \<Rightarrow> bool" where
  "has_children w p = list_ex (\<lambda>q. strict_prefix p q) (map fst (fs w))"

definition remove_c :: "path \<Rightarrow> world \<Rightarrow> bool \<times> world" where
  "remove_c p w =
     (case node_at w p of
        None \<Rightarrow> (True, set_errno ENOENT w)
      | Some (File c) \<Rightarrow>
          (case faults w OP_UNLINK p of
             Some e \<Rightarrow> (True, set_errno e w)
           | None \<Rightarrow> (False, del_node p w))
      | Some Dir \<Rightarrow>
          (case faults w OP_RMDIR p of
             Some e \<Rightarrow> (True, set_errno e w)
           | None \<Rightarrow>
               if p = [] then (True, set_errno EBUSY w)
               else if has_children w p then (True, set_errno ENOTEMPTY w)
               else (False, del_node p w)))"

text \<open>
  \<^verbatim>\<open>fscanf(f, "%d", &step)\<close>: white space is skipped, then an optional sign and
  a run of decimal digits are read. The result is the value stored in the
  \<^verbatim>\<open>int\<close>, or None when no digit is there (a matching failure, which leaves
  the variable as it was), and the number of bytes consumed.

  C leaves the stored value undefined when the number does not fit an \<^verbatim>\<open>int\<close>.
  The model stores what the GNU C library stores on a 64-bit platform: the
  digits are converted to a \<^verbatim>\<open>long\<close> as \<^verbatim>\<open>strtol\<close> does, which saturates at
  the ends of its range, and the \<^verbatim>\<open>long\<close> is cast to \<^verbatim>\<open>int\<close>, which keeps its
  low 32 bits in two's complement. (When \<^verbatim>\<open>strtol\<close> saturates it also sets
  \<^verbatim>\<open>errno\<close>; the value stored is then 0 or -1, and the module does not read
  \<^verbatim>\<open>errno\<close> on the path it takes for them. The model leaves \<^verbatim>\<open>errno\<close> as it is.)
\<close>

definition isspace :: "char \<Rightarrow> bool" where
  "isspace c = (of_char c \<in> {9, 10, 11, 12, 13, 32 :: nat})"

definition isdigit :: "char \<Rightarrow> bool" where
  "isdigit c = (48 \<le> (of_char c :: nat) \<and> (of_char c :: nat) \<le> 57)"

definition digit_val :: "char \<Rightarrow> int" where
  "digit_val c = int (of_char c) - 48"

definition decimal :: "string \<Rightarrow> int" where
  "decimal ds = foldl (\<lambda>a c. 10 * a + digit_val c) 0 ds"

definition strtol_range :: "int \<Rightarrow> int" where
  "strtol_range v = max (- 9223372036854775808) (min 9223372036854775807 v)"

definition int_of_long :: "int \<Rightarrow> int" where
  "int_of_long v = (v + 2147483648) mod 4294967296 - 2147483648"

definition scan_d :: "string \<Rightarrow> int option \<times> nat" where
  "scan_d s =
     (let ws = takeWhile isspace s;
          r = dropWhile isspace s;
          neg = (r \<noteq> [] \<and> hd r = CHR ''-'');
          signed = (r \<noteq> [] \<and> (hd r = CHR ''-'' \<or> hd r = CHR ''+''));
          r1 = (if signed then tl r else r);
          ds = takeWhile isdigit r1
      in (if ds = [] then None
          else Some (int_of_long (strtol_range (if neg then - decimal ds else decimal ds))),
          length ws + (if signed then 1 else 0) + length ds))"

definition fscanf_d :: "FILE \<Rightarrow> world \<Rightarrow> int option \<times> FILE" where
  "fscanf_d f w =
     (case node_at w (fpath f) of
        Some (File c) \<Rightarrow>
          (case scan_d (drop (fpos f) c) of
             (r, k) \<Rightarrow> (r, FILE (fpath f) (fpos f + k) (fbuf f)))
      | Some Dir \<Rightarrow> (None, f)
      | None \<Rightarrow> (None, f))"

definition strerror :: "errno_val \<Rightarrow> string" where
  "strerror e =
     (case e of
        E0 \<Rightarrow> ''Success''
      | EPERM \<Rightarrow> ''Operation not permitted''
      | ENOENT \<Rightarrow> ''No such file or directory''
      | EIO \<Rightarrow> ''Input/output error''
      | EBADF \<Rightarrow> ''Bad file descriptor''
      | ENOMEM \<Rightarrow> ''Cannot allocate memory''
      | EACCES \<Rightarrow> ''Permission denied''
      | EBUSY \<Rightarrow> ''Device or resource busy''
      | EEXIST \<Rightarrow> ''File exists''
      | ENOTDIR \<Rightarrow> ''Not a directory''
      | EISDIR \<Rightarrow> ''Is a directory''
      | ENOSPC \<Rightarrow> ''No space left on device''
      | EROFS \<Rightarrow> ''Read-only file system''
      | ENOTEMPTY \<Rightarrow> ''Directory not empty'')"

subsection \<open>The platform layer\<close>

text \<open>
  Modelled from the spec: \<^verbatim>\<open>puflib_get_nv_store_path\<close> is declared in
  \<^verbatim>\<open>puflib_internal.h\<close> and defined outside the two source files. The spec
  makes it a deterministic function of module name and storage kind that fails
  only when the storage root cannot be resolved; the function itself is a
  parameter of the world.
\<close>

definition puflib_get_nv_store_path ::
  "string \<Rightarrow> puflib_storage_type \<Rightarrow> world \<Rightarrow> path option" where
  "puflib_get_nv_store_path nm t w = nv_store_path w nm t"

text \<open>
  Modelled from the spec: \<^verbatim>\<open>puflib_check_access\<close> is defined outside the two
  source files. The spec describes an existence check with the expected
  file-versus-directory shape and no content validation. It returns True when
  the path is not there in that shape.
\<close>

definition puflib_check_access :: "path \<Rightarrow> bool \<Rightarrow> world \<Rightarrow> bool \<times> world" where
  "puflib_check_access p isdirectory w =
     (case node_at w p of
        None \<Rightarrow> (True, set_errno ENOENT w)
      | Some Dir \<Rightarrow> if isdirectory then (False, w) else (True, set_errno EISDIR w)
      | Some (File c) \<Rightarrow> if isdirectory then (True, set_errno ENOTDIR w) else (False, w))"

text \<open>
  Modelled from the spec: \<^verbatim>\<open>puflib_create_directory_tree\<close> is defined outside
  the two source files. The spec has it create the missing ancestor directories
  of a path, and the path itself unless \<open>skip_last\<close>. This is its loop over the
  directories to make: one that exists is left alone, and the first \<^verbatim>\<open>mkdir\<close>
  that fails ends the call with True.
\<close>

fun mkdirs :: "path list \<Rightarrow> world \<Rightarrow> bool \<times> world" where
  "mkdirs [] w = (False, w)"
| "mkdirs (d # ds) w =
     (if node_at w d = Some Dir then mkdirs ds w
      else (case os_mkdir d w of
              (True, w') \<Rightarrow> (True, w')
            | (False, w') \<Rightarrow> mkdirs ds w'))"

text \<open>
  Modelled from the spec: the directories \<^verbatim>\<open>puflib_create_directory_tree\<close> makes
  for a path, outermost first: its ancestors, and the path itself unless
  \<open>skip_last\<close>.
\<close>

definition dirs_to_create :: "path \<Rightarrow> bool \<Rightarrow> path list" where
  "dirs_to_create p skip_last =
     (if skip_last then butlast (tl (prefixes p)) else tl (prefixes p))"

text \<open>
  Modelled from the spec: \<^verbatim>\<open>puflib_create_directory_tree\<close> itself, True on failure.
\<close>

definition puflib_create_directory_tree :: "path \<Rightarrow> bool \<Rightarrow> world \<Rightarrow> bool \<times> world" where
  "puflib_create_directory_tree p skip_last w = mkdirs (dirs_to_create p skip_last) w"

text \<open>
  Modelled from the spec: \<^verbatim>\<open>puflib_create_and_open\<close> is defined outside the two
  source files. In the spec the existence of the temp store is the lock of the
  provisioning protocol: creation fails because the store already exists, and a
  store that is created starts empty. So the file is created exclusively, which
  fails on a path that exists, and then opened in the mode given.
\<close>

definition puflib_create_and_open :: "path \<Rightarrow> fmode \<Rightarrow> world \<Rightarrow> FILE option \<times> world" where
  "puflib_create_and_open p m w =
     (case os_creat_excl p w of
        (True, w') \<Rightarrow> (None, w')
      | (False, w') \<Rightarrow> fopen p m w')"

text \<open>
  Modelled from the spec: \<^verbatim>\<open>puflib_delete_tree\<close> is defined outside the two
  source files. The spec has it remove a whole directory tree and allows a tree
  that is partially removed on failure: the entries below the directory go
  first, the deepest first, then the directory. This is its loop: the first
  removal that fails ends the call with True and its \<^verbatim>\<open>errno\<close>.
\<close>

fun remove_each :: "path list \<Rightarrow> world \<Rightarrow> bool \<times> world" where
  "remove_each [] w = (False, w)"
| "remove_each (q # qs) w =
     (case remove_c q w of
        (True, w') \<Rightarrow> (True, w')
      | (False, w') \<Rightarrow> remove_each qs w')"

text \<open>
  Modelled from the spec: what \<^verbatim>\<open>puflib_delete_tree\<close> finds below a directory,
  the deepest entries first.
\<close>

definition entries_below :: "world \<Rightarrow> path \<Rightarrow> path list" where
  "entries_below w p =
     rev (sort_key length (remdups (filter (\<lambda>q. strict_prefix p q) (map fst (fs w)))))"

text \<open>
  Modelled from the spec: \<^verbatim>\<open>puflib_delete_tree\<close> itself, True on failure.
\<close>

definition puflib_delete_tree :: "path \<Rightarrow> world \<Rightarrow> bool \<times> world" where
  "puflib_delete_tree p w =
     (case node_at w p of
        None \<Rightarrow> (True, set_errno ENOENT w)
      | Some (File c) \<Rightarrow> (True, set_errno ENOTDIR w)
      | Some Dir \<Rightarrow> remove_each (entries_below w p @ [p]) w)"

text \<open>
  Modelled from the spec: \<^verbatim>\<open>puflib_asprintf\<close> and \<^verbatim>\<open>puflib_vasprintf\<close> are
  defined outside the two source files. Their argument here is the string the
  format expands to; they return it, or fail when it cannot be allocated.
\<close>

definition puflib_asprintf :: "string \<Rightarrow> world \<Rightarrow> string option \<times> world" where
  "puflib_asprintf s w =
     (if asprintf_fails w s then (None, set_errno ENOMEM w) else (Some s, w))"

text \<open>
  Modelled from the spec: \<^verbatim>\<open>puflib_vasprintf\<close>, the same with a \<^verbatim>\<open>va_list\<close>.
\<close>

definition puflib_vasprintf :: "string \<Rightarrow> world \<Rightarrow> string option \<times> world" where
  "puflib_vasprintf s w = puflib_asprintf s w"

section \<open>puflib.c\<close>

definition storage_type_is_dir :: "puflib_storage_type \<Rightarrow> bool" where
  "storage_type_is_dir t =
     (t = STORAGE_TEMP_DIR \<or> t = STORAGE_FINAL_DIR \<or> t = STORAGE_DISABLED_DIR)"

definition puflib_module_status :: "module_info \<Rightarrow> world \<Rightarrow> module_status \<times> world" where
  "puflib_module_status module w =
     (case puflib_get_nv_store_path (name module) STORAGE_FINAL_FILE w of
        None \<Rightarrow> (MODULE_STATUS_ERROR, w)
      | Some path_f \<Rightarrow>
     (case puflib_get_nv_store_path (name module) STORAGE_FINAL_DIR w of
        None \<Rightarrow> (MODULE_STATUS_ERROR, w)
      | Some path_d \<Rightarrow>
     (case puflib_get_nv_store_path (name module) STORAGE_DISABLED_FILE w of
        None \<Rightarrow> (MODULE_STATUS_ERROR, w)
      | Some path_dis_f \<Rightarrow>
     (case puflib_get_nv_store_path (name module) STORAGE_DISABLED_DIR w of
        None \<Rightarrow> (MODULE_STATUS_ERROR, w)
      | Some path_dis_d \<Rightarrow>
          (let (r_f, w1) = puflib_check_access path_f False w;
               access_f = (\<not> r_f);
               (r_d, w2) = puflib_check_access path_d True w1;
               access_d = (\<not> r_d);
               (r_dis_f, w3) = puflib_check_access path_dis_f False w2;
               access_dis_f = (\<not> r_dis_f);
               (r_dis_d, w4) = puflib_check_access path_dis_d True w3;
               access_dis_d = (\<not> r_dis_d);
               status0 = {};
               status1 = (if access_dis_f \<or> access_dis_d
                          then status0 \<union> {MODULE_PROVISIONED, MODULE_DISABLED}
                          else status0);
               status2 = (if access_f \<or> access_d
                          then status1 \<union> {MODULE_PROVISIONED}
                          else status1)
           in (MODULE_STATUS status2, w4))))))"

definition puflib_set_query_handler :: "puflib_query_handler option \<Rightarrow> world \<Rightarrow> world" where
  "puflib_set_query_handler callback w = w\<lparr>QUERY_CALLBACK := callback\<rparr>"

definition puflib_create_nv_store ::
  "module_info \<Rightarrow> puflib_storage_type \<Rightarrow> world \<Rightarrow> path option \<times> world" where
  "puflib_create_nv_store module t w =
     (case puflib_get_nv_store_path (name module) t w of
        None \<Rightarrow> (None, w)
      | Some p \<Rightarrow>
          (let (present, w1) =
                 (if storage_type_is_dir t
                  then (case puflib_check_access p True w of (r, w') \<Rightarrow> (\<not> r, w'))
                  else (False, w))
           in if present then (None, set_errno EEXIST w1)
              else (case puflib_create_directory_tree p (\<not> storage_type_is_dir t) w1 of
                      (True, w2) \<Rightarrow> (None, w2)
                    | (False, w2) \<Rightarrow>
                        if \<not> storage_type_is_dir t
                        then (case puflib_create_and_open p MODE_RPLUS w2 of
                                (None, w3) \<Rightarrow> (None, w3)
                              | (Some f, w3) \<Rightarrow> (Some p, fclose f w3))
                        else (Some p, w2))))"

definition puflib_get_nv_store ::
  "module_info \<Rightarrow> puflib_storage_type \<Rightarrow> world \<Rightarrow> path option \<times> world" where
  "puflib_get_nv_store module t w =
     (case puflib_get_nv_store_path (name module) t w of
        None \<Rightarrow> (None, w)
      | Some p \<Rightarrow>
          (case puflib_check_access p (storage_type_is_dir t) w of
             (True, w1) \<Rightarrow> (None, set_errno EACCES w1)
           | (False, w1) \<Rightarrow> (Some p, w1)))"

definition puflib_delete_nv_store ::
  "module_info \<Rightarrow> puflib_storage_type \<Rightarrow> world \<Rightarrow> bool \<times> world" where
  "puflib_delete_nv_store module t w =
     (case puflib_get_nv_store_path (name module) t w of
        None \<Rightarrow> (True, w)
      | Some p \<Rightarrow>
          (case (if storage_type_is_dir t then puflib_delete_tree p w else remove_c p w) of
             (True, w1) \<Rightarrow> (True, w1)
           | (False, w1) \<Rightarrow> (False, w1)))"

definition puflib_deprovision :: "module_info \<Rightarrow> world \<Rightarrow> bool \<times> world" where
  "puflib_deprovision module w =
     (let (store_file_path, w1) = puflib_get_nv_store module STORAGE_FINAL_FILE w;
          (store_dir_path, w2) = puflib_get_nv_store module STORAGE_FINAL_DIR w1;
          (err_f, w3) = (case store_file_path of
                           Some p \<Rightarrow> remove_c p w2
                         | None \<Rightarrow> (False, w2))
      in if err_f then (True, w3)
         else (case store_dir_path of
                 Some d \<Rightarrow>
                   (case puflib_delete_tree d w3 of
                      (True, w4) \<Rightarrow> (True, w4)
                    | (False, w4) \<Rightarrow> (False, w4))
               | None \<Rightarrow> (False, w3)))"

definition puflib_set_status_handler :: "puflib_status_handler option \<Rightarrow> world \<Rightarrow> world" where
  "puflib_set_status_handler callback w = w\<lparr>STATUS_CALLBACK := callback\<rparr>"

text \<open>
  The call \<^verbatim>\<open>STATUS_CALLBACK(s)\<close>. The source makes it without testing the slot:
  through the NULL the slot starts with, the call does not return and the
  process ends there, which is the result None. An installed handler is handed
  the string and returns.
\<close>

definition STATUS_CALLBACK_call :: "string \<Rightarrow> world \<Rightarrow> world option" where
  "STATUS_CALLBACK_call s w =
     (case STATUS_CALLBACK w of
        None \<Rightarrow> None
      | Some HANDLER \<Rightarrow> Some (w\<lparr>status_log := status_log w @ [s]\<rparr>))"

definition level_as_string :: "puflib_status_level \<Rightarrow> string" where
  "level_as_string level =
     (case level of
        STATUS_INFO \<Rightarrow> ''info''
      | STATUS_WARN \<Rightarrow> ''warn''
      | STATUS_ERROR \<Rightarrow> ''error''
      | STATUS_UNRECOGNIZED v \<Rightarrow> ''error'')"

text \<open>The reporting functions return nothing: the result is the world, if they return.\<close>

definition puflib_report ::
  "module_info \<Rightarrow> puflib_status_level \<Rightarrow> string \<Rightarrow> world \<Rightarrow> world option" where
  "puflib_report module level message w =
     (case puflib_asprintf
             (level_as_string level @ '' ('' @ name module @ ''): '' @ message) w of
        (None, w1) \<Rightarrow>
          STATUS_CALLBACK_call ''error (puflib): internal error formatting message'' w1
      | (Some formatted, w1) \<Rightarrow> STATUS_CALLBACK_call formatted w1)"

text \<open>The argument \<open>expanded\<close> is what the format and its arguments expand to.\<close>

definition puflib_report_fmt ::
  "module_info \<Rightarrow> puflib_status_level \<Rightarrow> string \<Rightarrow> world \<Rightarrow> world option" where
  "puflib_report_fmt module level expanded w =
     (case puflib_vasprintf expanded w of
        (None, w1) \<Rightarrow>
          STATUS_CALLBACK_call ''error (puflib): internal error formatting message'' w1
      | (Some formatted, w1) \<Rightarrow> puflib_report module level formatted w1)"

definition puflib_perror :: "module_info \<Rightarrow> world \<Rightarrow> world option" where
  "puflib_perror module w = puflib_report module STATUS_ERROR (strerror (errno w)) w"

text \<open>The result is the failure signal, the buffer afterwards and the world.\<close>

definition puflib_query ::
  "module_info \<Rightarrow> string \<Rightarrow> string \<Rightarrow> string \<Rightarrow> nat \<Rightarrow> world \<Rightarrow> bool \<times> string \<times> world" where
  "puflib_query module key prompt buffer buflen w =
     (case QUERY_CALLBACK w of
        Some callback \<Rightarrow>
          (case callback module key prompt buffer buflen of
             (r, buffer') \<Rightarrow> (r, buffer', w))
      | None \<Rightarrow> (True, buffer, set_errno E0 w))"

section \<open>puflibtest.c\<close>

definition MODULE_INFO :: module_info where
  "MODULE_INFO =
     \<lparr>name = ''puflibtest'',
      author = ''Chris Pavlina <pavlinac@ainfosec.com>'',
      desc = ''puflib test module''\<rparr>"

definition is_hw_supported :: bool where
  "is_hw_supported = True"

text \<open>The bytes of a character array up to its first NUL, as \<^verbatim>\<open>%s\<close> prints them.\<close>

definition c_string :: "string \<Rightarrow> string" where
  "c_string buf = takeWhile (\<lambda>c. c \<noteq> CHR 0x00) buf"

text \<open>
  \<open>querybuf\<close> is the content of the 500-byte automatic array when the function
  is entered: the source does not initialise it, so it is a parameter. The
  result of the three functions is None when a report inside does not return.
\<close>

definition provision_start ::
  "FILE \<Rightarrow> string \<Rightarrow> world \<Rightarrow> (provisioning_status \<times> world) option" where
  "provision_start f querybuf w =
     do {
       w1 \<leftarrow> puflib_report MODULE_INFO STATUS_INFO ''writing to NV store'' w;
       let (e, f1) = fprintf f (''1'' @ [CHR 0x0A]);
       w2 \<leftarrow> puflib_report MODULE_INFO STATUS_INFO
               ''provisioning will continue after the next invocation'' w1;
       let w3 = fclose f1 w2;
       let (r, buf, w4) =
             puflib_query MODULE_INFO ''testquery'' ''Enter any data: '' querybuf 500 w3;
       let buf' = buf[499 := CHR 0x00];
       w5 \<leftarrow> puflib_report_fmt MODULE_INFO STATUS_INFO
               (''query input was: '' @ c_string buf') w4;
       Some (PROVISION_INCOMPLETE, w5)
     }"

definition provision_continue :: "FILE \<Rightarrow> world \<Rightarrow> (provisioning_status \<times> world) option" where
  "provision_continue f w =
     do {
       w1 \<leftarrow> puflib_report MODULE_INFO STATUS_INFO ''reading from NV store'' w;
       let (r, f1) = fscanf_d f w1;
       let step = (case r of Some v \<Rightarrow> v | None \<Rightarrow> 0);
       if step = 1 then
         do {
           w2 \<leftarrow> puflib_report MODULE_INFO STATUS_INFO ''writing to NV store again'' w1;
           w3 \<leftarrow> puflib_report MODULE_INFO STATUS_INFO
                   ''provisioning will continue after the next invocation'' w2;
           let (f2, w4) = rewind f1 w3;
           let (e, f3) = fprintf f2 (''2'' @ [CHR 0x0A]);
           Some (PROVISION_INCOMPLETE, fclose f3 w4)
         }
       else if step = 2 then
         do {
           let w2 = fclose f1 w1;
           w3 \<leftarrow> puflib_report MODULE_INFO STATUS_INFO ''complete'' w2;
           w4 \<leftarrow> puflib_report MODULE_INFO STATUS_INFO ''deleting NV store'' w3;
           case puflib_delete_nv_store MODULE_INFO STORAGE_TEMP_FILE w4 of
             (True, w5) \<Rightarrow>
               do {
                 w6 \<leftarrow> puflib_report MODULE_INFO STATUS_ERROR (strerror (errno w5)) w5;
                 Some (PROVISION_ERROR, w6)
               }
           | (False, w5) \<Rightarrow>
               (case puflib_create_nv_store MODULE_INFO STORAGE_FINAL_FILE w5 of
                  (None, w6) \<Rightarrow>
                    do { w7 \<leftarrow> puflib_perror MODULE_INFO w6; Some (PROVISION_ERROR, w7) }
                | (Some final, w6) \<Rightarrow>
                    (case fopen final MODE_W w6 of
                       (None, w7) \<Rightarrow>
                         do { w8 \<leftarrow> puflib_perror MODULE_INFO w7; Some (PROVISION_ERROR, w8) }
                     | (Some g, w7) \<Rightarrow>
                         (case fputs ''provisioned'' g of
                            (True, g1) \<Rightarrow>
                              do {
                                w8 \<leftarrow> puflib_perror MODULE_INFO
                                        (set_errno (errno w7) (fclose g1 w7));
                                Some (PROVISION_ERROR, w8)
                              }
                          | (False, g1) \<Rightarrow> Some (PROVISION_COMPLETE, fclose g1 w7))))
         }
       else
         do {
           let w2 = fclose f1 w1;
           w3 \<leftarrow> puflib_report MODULE_INFO STATUS_WARN ''NV store corrupted'' w2;
           Some (PROVISION_ERROR, w3)
         }
     }"

definition provision :: "string \<Rightarrow> world \<Rightarrow> (provisioning_status \<times> world) option" where
  "provision querybuf w =
     (case puflib_create_nv_store MODULE_INFO STORAGE_TEMP_FILE w of
        (Some p, w1) \<Rightarrow>
          (case fopen p MODE_RPLUS w1 of
             (None, w2) \<Rightarrow>
               do { w3 \<leftarrow> puflib_perror MODULE_INFO w2; Some (PROVISION_ERROR, w3) }
           | (Some f, w2) \<Rightarrow>
               do {
                 w3 \<leftarrow> puflib_report MODULE_INFO STATUS_INFO ''creating NV store'' w2;
                 provision_start f querybuf w3
               })
      | (None, w1) \<Rightarrow>
          do {
            w2 \<leftarrow> puflib_report MODULE_INFO STATUS_INFO
                    ''could not create or NV store exists, continuing provision'' w1;
            case puflib_get_nv_store MODULE_INFO STORAGE_TEMP_FILE w2 of
              (None, w3) \<Rightarrow>
                do { w4 \<leftarrow> puflib_perror MODULE_INFO w3; Some (PROVISION_ERROR, w4) }
            | (Some p, w3) \<Rightarrow>
                (case fopen p MODE_RPLUS w3 of
                   (None, w4) \<Rightarrow>
                     do { w5 \<leftarrow> puflib_perror MODULE_INFO w4; Some (PROVISION_ERROR, w5) }
                 | (Some f, w4) \<Rightarrow> provision_continue f w4)
          })"

section \<open>Auxiliary notions and example worlds\<close>

definition is_file :: "node option \<Rightarrow> bool" where
  "is_file n = (case n of Some (File c) \<Rightarrow> True | Some Dir \<Rightarrow> False | None \<Rightarrow> False)"

text \<open>
  Two worlds with the same durable storage and environment: what one process
  invocation leaves to the next. \<^verbatim>\<open>errno\<close>, the handlers and what they received
  belong to the process.
\<close>

definition same_storage :: "world \<Rightarrow> world \<Rightarrow> bool" where
  "same_storage w w' =
     (fs w' = fs w \<and> faults w' = faults w \<and> nv_store_path w' = nv_store_path w)"

text \<open>
  \<open>quiet w w'\<close>: the step from \<open>w\<close> to \<open>w'\<close> changed at most the file system
  and \<^verbatim>\<open>errno\<close>.
\<close>

definition quiet :: "world \<Rightarrow> world \<Rightarrow> bool" where
  "quiet w w' =
     (faults w' = faults w \<and> nv_store_path w' = nv_store_path w \<and>
      asprintf_fails w' = asprintf_fails w \<and> STATUS_CALLBACK w' = STATUS_CALLBACK w \<and>
      QUERY_CALLBACK w' = QUERY_CALLBACK w \<and> status_log w' = status_log w)"

text \<open>
  What a call of the installed status handler, and a report that returns, leave
  behind.
\<close>

definition handed :: "string \<Rightarrow> world \<Rightarrow> world" where
  "handed s w = w\<lparr>status_log := status_log w @ [s]\<rparr>"

definition reported :: "module_info \<Rightarrow> puflib_status_level \<Rightarrow> string \<Rightarrow> world \<Rightarrow> world" where
  "reported module level message w =
     (case puflib_asprintf
             (level_as_string level @ '' ('' @ name module @ ''): '' @ message) w of
        (None, w1) \<Rightarrow> handed ''error (puflib): internal error formatting message'' w1
      | (Some formatted, w1) \<Rightarrow> handed formatted w1)"

definition reported_fmt :: "module_info \<Rightarrow> puflib_status_level \<Rightarrow> string \<Rightarrow> world \<Rightarrow> world" where
  "reported_fmt module level expanded w =
     (case puflib_vasprintf expanded w of
        (None, w1) \<Rightarrow> handed ''error (puflib): internal error formatting message'' w1
      | (Some formatted, w1) \<Rightarrow> reported module level formatted w1)"

text \<open>A storage layout for the examples: \<^verbatim>\<open>puflib/<module>/<kind>\<close>.\<close>

definition kind_name :: "puflib_storage_type \<Rightarrow> string" where
  "kind_name t =
     (case t of
        STORAGE_TEMP_FILE \<Rightarrow> ''temp_file''
      | STORAGE_TEMP_DIR \<Rightarrow> ''temp_dir''
      | STORAGE_FINAL_FILE \<Rightarrow> ''final_file''
      | STORAGE_FINAL_DIR \<Rightarrow> ''final_dir''
      | STORAGE_DISABLED_FILE \<Rightarrow> ''disabled_file''
      | STORAGE_DISABLED_DIR \<Rightarrow> ''disabled_dir'')"

definition example_paths :: "string \<Rightarrow> puflib_storage_type \<Rightarrow> path option" where
  "example_paths nm t = Some [''puflib'', nm, kind_name t]"

text \<open>
  The library as a process starts with it, on an empty storage: both handler
  slots are NULL. And the same once the caller has installed a status handler.
\<close>

definition startup_world :: world where
  "startup_world =
     \<lparr>fs = [], errno = E0, faults = (\<lambda>op p. None), nv_store_path = example_paths,
      asprintf_fails = (\<lambda>s. False), STATUS_CALLBACK = None, status_log = [],
      QUERY_CALLBACK = None\<rparr>"

definition empty_world :: world where
  "empty_world = puflib_set_status_handler (Some HANDLER) startup_world"

definition example_handler :: puflib_query_handler where
  "example_handler module key prompt buffer buflen = (False, take buflen ''yes'')"

definition dir_store_world :: world where
  "dir_store_world = empty_world
     \<lparr>fs := [([''puflib''], Dir), ([''puflib'', ''puflibtest''], Dir),
             ([''puflib'', ''puflibtest'', ''final_dir''], Dir),
             ([''puflib'', ''puflibtest'', ''final_dir'', ''key''], File ''k'')]\<rparr>"

text \<open>
  The step \<open>provision_continue\<close> reads from a store with content \<open>c\<close>: the
  variable starts at 0 and \<^verbatim>\<open>fscanf\<close> overwrites it only on a match.
\<close>

definition persisted_step :: "string \<Rightarrow> int" where
  "persisted_step c = (case fst (scan_d c) of Some v \<Rightarrow> v | None \<Rightarrow> 0)"

definition temp_path :: path where
  "temp_path = [''puflib'', ''puflibtest'', ''temp_file'']"

definition final_path :: path where
  "final_path = [''puflib'', ''puflibtest'', ''final_file'']"

text \<open>A world whose temp store holds the given content.\<close>

definition resumed_world :: "string \<Rightarrow> world" where
  "resumed_world c = empty_world
     \<lparr>fs := [([''puflib''], Dir), ([''puflib'', ''puflibtest''], Dir),
             (temp_path, File c)]\<rparr>"




text \<open>Worlds for the status probe: one disabled store of either shape, or no root.\<close>

definition disabled_file_world :: world where
  "disabled_file_world = empty_world
     \<lparr>fs := [([''puflib''], Dir), ([''puflib'', ''puflibtest''], Dir),
             ([''puflib'', ''puflibtest'', ''disabled_file''], File [])]\<rparr>"

definition disabled_dir_world :: world where
  "disabled_dir_world = empty_world
     \<lparr>fs := [([''puflib''], Dir), ([''puflib'', ''puflibtest''], Dir),
             ([''puflib'', ''puflibtest'', ''disabled_dir''], Dir)]\<rparr>"

definition rootless_world :: world where
  "rootless_world = disabled_file_world\<lparr>nv_store_path := (\<lambda>nm t. None)\<rparr>"

text \<open>
  A provisioned module with both final stores, and the same with a final file
  the environment refuses to unlink.
\<close>

definition both_final_world :: world where
  "both_final_world = empty_world
     \<lparr>fs := [([''puflib''], Dir), ([''puflib'', ''puflibtest''], Dir),
             (final_path, File ''provisioned''),
             ([''puflib'', ''puflibtest'', ''final_dir''], Dir),
             ([''puflib'', ''puflibtest'', ''final_dir'', ''keys''], Dir),
             ([''puflib'', ''puflibtest'', ''final_dir'', ''keys'', ''k0''], File ''secret'')]\<rparr>"

definition locked_file_world :: world where
  "locked_file_world = both_final_world
     \<lparr>faults := (\<lambda>op p. if op = OP_UNLINK \<and> p = final_path then Some EPERM else None)\<rparr>"

text \<open>
  A new process on the same storage: \<^verbatim>\<open>errno\<close> is clear, both handler slots
  start as NULL and nothing has been reported; then the caller installs its
  status handler.
\<close>

definition fresh_process :: "world \<Rightarrow> world" where
  "fresh_process w =
     puflib_set_status_handler (Some HANDLER)
       (w\<lparr>errno := E0, STATUS_CALLBACK := None, status_log := [], QUERY_CALLBACK := None\<rparr>)"

section \<open>Basic facts about the file system model\<close>

lemma node_at_set_errno [simp]: "node_at (set_errno e w) p = node_at w p"
  by (simp add: node_at_def set_errno_def)

lemma node_at_errno_update [simp]: "node_at (w\<lparr>errno := e\<rparr>) p = node_at w p"
  by (simp add: node_at_def)

lemma node_at_put_node:
  "node_at (put_node p n w) q =
     (if q = [] then Some Dir else if q = p then Some n else node_at w q)"
  by (simp add: node_at_def put_node_def update_conv')

lemma node_at_del_node:
  "node_at (del_node p w) q =
     (if q = [] then Some Dir else if q = p then None else node_at w q)"
  by (simp add: node_at_def del_node_def delete_conv')

lemma node_at_root [simp]: "node_at w [] = Some Dir"
  by (simp add: node_at_def)

lemma node_at_fs_cong: "fs w' = fs w \<Longrightarrow> node_at w' p = node_at w p"
  by (simp add: node_at_def)

lemma frame_set_errno [simp]:
  "fs (set_errno e w) = fs w" "faults (set_errno e w) = faults w"
  "nv_store_path (set_errno e w) = nv_store_path w"
  "asprintf_fails (set_errno e w) = asprintf_fails w"
  "STATUS_CALLBACK (set_errno e w) = STATUS_CALLBACK w"
  "QUERY_CALLBACK (set_errno e w) = QUERY_CALLBACK w"
  "status_log (set_errno e w) = status_log w"
  "errno (set_errno e w) = e"
  by (simp_all add: set_errno_def)

lemma frame_put_node [simp]:
  "faults (put_node p n w) = faults w"
  "nv_store_path (put_node p n w) = nv_store_path w"
  "asprintf_fails (put_node p n w) = asprintf_fails w"
  "STATUS_CALLBACK (put_node p n w) = STATUS_CALLBACK w"
  "QUERY_CALLBACK (put_node p n w) = QUERY_CALLBACK w"
  "status_log (put_node p n w) = status_log w"
  "errno (put_node p n w) = errno w"
  by (simp_all add: put_node_def)

lemma frame_del_node [simp]:
  "faults (del_node p w) = faults w"
  "nv_store_path (del_node p w) = nv_store_path w"
  "asprintf_fails (del_node p w) = asprintf_fails w"
  "STATUS_CALLBACK (del_node p w) = STATUS_CALLBACK w"
  "QUERY_CALLBACK (del_node p w) = QUERY_CALLBACK w"
  "status_log (del_node p w) = status_log w"
  "errno (del_node p w) = errno w"
  by (simp_all add: del_node_def)

subsection \<open>Steps that change the file system and errno only\<close>

lemma quiet_refl [simp]: "quiet w w"
  by (simp add: quiet_def)

lemma quiet_trans: "quiet w w1 \<Longrightarrow> quiet w1 w2 \<Longrightarrow> quiet w w2"
  by (simp add: quiet_def)

lemma quiet_set_errno [simp]: "quiet w (set_errno e w)"
  by (simp add: quiet_def set_errno_def)

lemma quiet_put_node [simp]: "quiet w (put_node p n w)"
  by (simp add: quiet_def put_node_def)

lemma quiet_del_node [simp]: "quiet w (del_node p w)"
  by (simp add: quiet_def del_node_def)

lemma quiet_os_mkdir [simp]: "quiet w (snd (os_mkdir p w))"
  by (simp add: os_mkdir_def split: option.splits)

lemma quiet_os_creat_excl [simp]: "quiet w (snd (os_creat_excl p w))"
  by (simp add: os_creat_excl_def split: option.splits)

lemma quiet_fopen [simp]: "quiet w (snd (fopen p m w))"
proof -
  have "quiet w (snd (case os_creat_excl p w of (True, w') \<Rightarrow> (None :: FILE option, w')
                      | (False, w') \<Rightarrow> (Some (FILE p 0 []), w')))"
    using quiet_os_creat_excl [of w p]
    by (cases "os_creat_excl p w") (simp split: bool.splits)
  then show ?thesis
    by (simp add: fopen_def split: option.splits node.splits fmode.splits)
qed

lemma quiet_os_write [simp]: "quiet w (snd (os_write p k s w))"
  by (simp add: os_write_def split: option.splits node.splits)

lemma quiet_fflush [simp]: "quiet w (snd (snd (fflush f w)))"
  using quiet_os_write [of w "fpath f" "fpos f" "fbuf f"]
  by (cases "os_write (fpath f) (fpos f) (fbuf f) w") (simp add: fflush_def)

lemma quiet_fclose [simp]: "quiet w (fclose f w)"
  by (simp add: fclose_def)

lemma quiet_rewind [simp]: "quiet w (snd (rewind f w))"
  using quiet_fflush [of w f] by (cases "fflush f w") (simp add: rewind_def)

lemma fflush_empty [simp]: "fflush (FILE p k []) w = (False, FILE p k [], w)"
  by (simp add: fflush_def)

lemma fclose_empty [simp]: "fclose (FILE p k []) w = w"
  by (simp add: fclose_def)

lemma rewind_empty [simp]: "rewind (FILE p k []) w = (FILE p 0 [], w)"
  by (simp add: rewind_def)

lemma quiet_remove_c [simp]: "quiet w (snd (remove_c p w))"
  by (simp add: remove_c_def split: option.splits node.splits)

lemma quiet_check_access [simp]: "quiet w (snd (puflib_check_access p d w))"
  by (simp add: puflib_check_access_def split: option.splits node.splits)

lemma quiet_mkdirs [simp]: "quiet w (snd (mkdirs ds w))"
proof (induction ds arbitrary: w)
  case Nil
  show ?case by simp
next
  case (Cons d ds)
  obtain b w1 where o: "os_mkdir d w = (b, w1)" by (cases "os_mkdir d w")
  then have q: "quiet w w1" using quiet_os_mkdir [of w d] by simp
  have "quiet w1 (snd (mkdirs ds w1))" by (rule Cons.IH)
  with q have "quiet w (snd (mkdirs ds w1))" by (rule quiet_trans)
  with o q Cons.IH [of w] show ?case by (cases b) simp_all
qed

lemma quiet_remove_each [simp]: "quiet w (snd (remove_each qs w))"
proof (induction qs arbitrary: w)
  case Nil
  show ?case by simp
next
  case (Cons q qs)
  obtain b w1 where o: "remove_c q w = (b, w1)" by (cases "remove_c q w")
  then have q: "quiet w w1" using quiet_remove_c [of w q] by simp
  have "quiet w1 (snd (remove_each qs w1))" by (rule Cons.IH)
  with q have "quiet w (snd (remove_each qs w1))" by (rule quiet_trans)
  with o q show ?case by (cases b) simp_all
qed

lemma quiet_create_directory_tree [simp]:
  "quiet w (snd (puflib_create_directory_tree p k w))"
  by (simp add: puflib_create_directory_tree_def)

lemma quiet_delete_tree [simp]: "quiet w (snd (puflib_delete_tree p w))"
  by (simp add: puflib_delete_tree_def split: option.splits node.splits)

lemma quiet_create_and_open [simp]: "quiet w (snd (puflib_create_and_open p m w))"
proof -
  obtain b w1 where o: "os_creat_excl p w = (b, w1)" by (cases "os_creat_excl p w")
  then have q: "quiet w w1" using quiet_os_creat_excl [of w p] by simp
  have "quiet w1 (snd (fopen p m w1))" by simp
  with q have "quiet w (snd (fopen p m w1))" by (rule quiet_trans)
  with o q show ?thesis by (cases b) (simp_all add: puflib_create_and_open_def)
qed

lemma quiet_get_nv_store [simp]: "quiet w (snd (puflib_get_nv_store m t w))"
proof (cases "puflib_get_nv_store_path (name m) t w")
  case None
  then show ?thesis by (simp add: puflib_get_nv_store_def)
next
  case (Some p)
  obtain b w1 where o: "puflib_check_access p (storage_type_is_dir t) w = (b, w1)"
    by (cases "puflib_check_access p (storage_type_is_dir t) w")
  then have q: "quiet w w1" using quiet_check_access [of w p "storage_type_is_dir t"] by simp
  then have "quiet w (set_errno EACCES w1)" by (simp add: quiet_def set_errno_def)
  with Some o q show ?thesis by (cases b) (simp_all add: puflib_get_nv_store_def)
qed

lemma puflib_delete_nv_store_eq:
  "puflib_delete_nv_store m t w =
     (case puflib_get_nv_store_path (name m) t w of
        None \<Rightarrow> (True, w)
      | Some p \<Rightarrow> if storage_type_is_dir t then puflib_delete_tree p w else remove_c p w)"
proof (cases "puflib_get_nv_store_path (name m) t w")
  case None
  then show ?thesis by (simp add: puflib_delete_nv_store_def)
next
  case (Some p)
  obtain b w1 where o: "(if storage_type_is_dir t then puflib_delete_tree p w else remove_c p w) = (b, w1)"
    by (cases "if storage_type_is_dir t then puflib_delete_tree p w else remove_c p w")
  with Some show ?thesis
    by (cases b) (simp_all add: puflib_delete_nv_store_def)
qed

lemma quiet_delete_nv_store [simp]: "quiet w (snd (puflib_delete_nv_store m t w))"
  by (simp add: puflib_delete_nv_store_eq split: option.splits)


lemma quietD:
  "quiet w w' \<Longrightarrow> faults w' = faults w"
  "quiet w w' \<Longrightarrow> nv_store_path w' = nv_store_path w"
  "quiet w w' \<Longrightarrow> asprintf_fails w' = asprintf_fails w"
  "quiet w w' \<Longrightarrow> STATUS_CALLBACK w' = STATUS_CALLBACK w"
  "quiet w w' \<Longrightarrow> QUERY_CALLBACK w' = QUERY_CALLBACK w"
  "quiet w w' \<Longrightarrow> status_log w' = status_log w"
  by (simp_all add: quiet_def)

lemma quiet_create_nv_store [simp]: "quiet w (snd (puflib_create_nv_store m t w))"
proof (cases "puflib_get_nv_store_path (name m) t w")
  case None
  then show ?thesis by (simp add: puflib_create_nv_store_def)
next
  case (Some p)
  define pw where "pw = (if storage_type_is_dir t
                  then (case puflib_check_access p True w of (r, w') \<Rightarrow> (\<not> r, w'))
                  else (False, w))"
  obtain present w1 where pw1: "pw = (present, w1)" by (cases pw)
  have q1: "quiet w w1"
    using pw1 quiet_check_access [of w p True]
    by (cases "puflib_check_access p True w") (auto simp add: pw_def split: if_splits)
  show ?thesis
  proof (cases present)
    case True
    have "quiet w (set_errno EEXIST w1)" using q1 by (simp add: quiet_def set_errno_def)
    with Some pw1 True show ?thesis
      by (simp add: puflib_create_nv_store_def pw_def [symmetric])
  next
    case False
    obtain b w2 where c: "puflib_create_directory_tree p (\<not> storage_type_is_dir t) w1 = (b, w2)"
      by (cases "puflib_create_directory_tree p (\<not> storage_type_is_dir t) w1")
    then have "quiet w1 w2"
      using quiet_create_directory_tree [of w1 p "\<not> storage_type_is_dir t"] by simp
    with q1 have q2: "quiet w w2" by (rule quiet_trans)
    obtain g w3 where o: "puflib_create_and_open p MODE_RPLUS w2 = (g, w3)"
      by (cases "puflib_create_and_open p MODE_RPLUS w2")
    then have "quiet w2 w3" using quiet_create_and_open [of w2 p MODE_RPLUS] by simp
    with q2 have q3: "quiet w w3" by (rule quiet_trans)
    have q4: "quiet w (fclose f w3)" for f
      using q3 quiet_fclose [of w3 f] by (rule quiet_trans)
    from Some pw1 False c o q2 q3 q4 show ?thesis
      by (cases b; cases g)
         (simp_all add: puflib_create_nv_store_def pw_def [symmetric])
  qed
qed

subsection \<open>Reports and queries leave the storage alone\<close>

lemma handed_fields [simp]:
  "fs (handed s w) = fs w"
  "errno (handed s w) = errno w"
  "faults (handed s w) = faults w"
  "nv_store_path (handed s w) = nv_store_path w"
  "asprintf_fails (handed s w) = asprintf_fails w"
  "STATUS_CALLBACK (handed s w) = STATUS_CALLBACK w"
  "QUERY_CALLBACK (handed s w) = QUERY_CALLBACK w"
  "status_log (handed s w) = status_log w @ [s]"
  by (simp_all add: handed_def)

lemma call_installed:
  "STATUS_CALLBACK w = Some HANDLER \<Longrightarrow> STATUS_CALLBACK_call s w = Some (handed s w)"
  by (simp add: STATUS_CALLBACK_call_def handed_def)

lemma call_null: "STATUS_CALLBACK w = None \<Longrightarrow> STATUS_CALLBACK_call s w = None"
  by (simp add: STATUS_CALLBACK_call_def)

lemma installed_cases: "STATUS_CALLBACK w = None \<or> STATUS_CALLBACK w = Some HANDLER"
  by (cases "STATUS_CALLBACK w") (simp_all, metis puflib_status_handler.exhaust)

text \<open>With a status handler installed the reporting functions return.\<close>

lemma report_installed:
  "STATUS_CALLBACK w = Some HANDLER \<Longrightarrow> puflib_report m l s w = Some (reported m l s w)"
  by (simp add: puflib_report_def reported_def puflib_asprintf_def call_installed)

lemma report_fmt_installed:
  "STATUS_CALLBACK w = Some HANDLER \<Longrightarrow>
   puflib_report_fmt m l s w = Some (reported_fmt m l s w)"
  by (simp add: puflib_report_fmt_def reported_fmt_def puflib_vasprintf_def
        puflib_asprintf_def call_installed report_installed)


text \<open>Without one they do not.\<close>

lemma report_null: "STATUS_CALLBACK w = None \<Longrightarrow> puflib_report m l s w = None"
  by (simp add: puflib_report_def puflib_asprintf_def call_null)

lemma report_fmt_null: "STATUS_CALLBACK w = None \<Longrightarrow> puflib_report_fmt m l s w = None"
  by (simp add: puflib_report_fmt_def puflib_vasprintf_def puflib_asprintf_def call_null
        report_null)

lemma perror_null: "STATUS_CALLBACK w = None \<Longrightarrow> puflib_perror m w = None"
  by (simp add: puflib_perror_def report_null)

lemma report_fields [simp]:
  "fs (reported m l s w) = fs w"
  "faults (reported m l s w) = faults w"
  "nv_store_path (reported m l s w) = nv_store_path w"
  "asprintf_fails (reported m l s w) = asprintf_fails w"
  "STATUS_CALLBACK (reported m l s w) = STATUS_CALLBACK w"
  "QUERY_CALLBACK (reported m l s w) = QUERY_CALLBACK w"
  by (simp_all add: reported_def puflib_asprintf_def)

lemma report_log:
  "status_log (reported m l s w) =
     status_log w @
       [if asprintf_fails w (level_as_string l @ '' ('' @ name m @ ''): '' @ s)
        then ''error (puflib): internal error formatting message''
        else level_as_string l @ '' ('' @ name m @ ''): '' @ s]"
  by (simp add: reported_def puflib_asprintf_def)


lemma node_at_report [simp]: "node_at (reported m l s w) p = node_at w p"
  by (simp add: node_at_def)

lemma report_fmt_fields [simp]:
  "fs (reported_fmt m l s w) = fs w"
  "faults (reported_fmt m l s w) = faults w"
  "nv_store_path (reported_fmt m l s w) = nv_store_path w"
  "asprintf_fails (reported_fmt m l s w) = asprintf_fails w"
  "STATUS_CALLBACK (reported_fmt m l s w) = STATUS_CALLBACK w"
  "QUERY_CALLBACK (reported_fmt m l s w) = QUERY_CALLBACK w"
  by (simp_all add: reported_fmt_def puflib_vasprintf_def puflib_asprintf_def)

lemma node_at_report_fmt [simp]: "node_at (reported_fmt m l s w) p = node_at w p"
  by (simp add: node_at_def)

lemma query_fields [simp]:
  "fs (snd (snd (puflib_query m k pr b n w))) = fs w"
  "faults (snd (snd (puflib_query m k pr b n w))) = faults w"
  "nv_store_path (snd (snd (puflib_query m k pr b n w))) = nv_store_path w"
  "asprintf_fails (snd (snd (puflib_query m k pr b n w))) = asprintf_fails w"
  "STATUS_CALLBACK (snd (snd (puflib_query m k pr b n w))) = STATUS_CALLBACK w"
  "QUERY_CALLBACK (snd (snd (puflib_query m k pr b n w))) = QUERY_CALLBACK w"
  by (simp_all add: puflib_query_def set_errno_def split: option.splits prod.splits)

subsection \<open>Creation keeps every node that exists\<close>

lemma os_mkdir_keeps:
  "node_at w q = Some n \<Longrightarrow> node_at (snd (os_mkdir d w)) q = Some n"
  by (auto simp add: os_mkdir_def node_at_put_node split: option.splits)

lemma mkdirs_keeps:
  "node_at w q = Some n \<Longrightarrow> node_at (snd (mkdirs ds w)) q = Some n"
proof (induction ds arbitrary: w)
  case Nil
  then show ?case by simp
next
  case (Cons d ds)
  show ?case
  proof (cases "os_mkdir d w")
    case (Pair b w')
    then have "node_at w' q = Some n"
      using os_mkdir_keeps [OF Cons.prems, of d] by simp
    with Pair Cons.IH Cons.prems show ?thesis by (cases b) simp_all
  qed
qed

lemma os_mkdir_success:
  "os_mkdir d w = (False, w') \<Longrightarrow> node_at w' d = Some Dir"
  by (auto simp add: os_mkdir_def node_at_put_node split: option.splits if_splits)

lemma mkdirs_success_dirs:
  "mkdirs ds w = (False, w') \<Longrightarrow> d \<in> set ds \<Longrightarrow> node_at w' d = Some Dir"
proof (induction ds arbitrary: w)
  case Nil
  then show ?case by simp
next
  case (Cons a ds)
  show ?case
  proof (cases "node_at w a = Some Dir")
    case True
    with Cons.prems(1) have m: "mkdirs ds w = (False, w')" by simp
    show ?thesis
    proof (cases "d = a")
      case True
      with \<open>node_at w a = Some Dir\<close> mkdirs_keeps [of w a Dir ds] m show ?thesis by simp
    next
      case False
      with Cons.prems(2) have "d \<in> set ds" by simp
      with Cons.IH m show ?thesis by blast
    qed
  next
    case False
    obtain b w1 where o: "os_mkdir a w = (b, w1)" by (cases "os_mkdir a w")
    with False Cons.prems(1) have b: "b = False" and m: "mkdirs ds w1 = (False, w')"
      by (cases b; simp)+
    from o b have a1: "node_at w1 a = Some Dir" using os_mkdir_success by simp
    show ?thesis
    proof (cases "d = a")
      case True
      with a1 mkdirs_keeps [of w1 a Dir ds] m show ?thesis by simp
    next
      case False
      with Cons.prems(2) have "d \<in> set ds" by simp
      with Cons.IH m show ?thesis by blast
    qed
  qed
qed

lemma os_creat_excl_success:
  "os_creat_excl p w = (False, w') \<Longrightarrow>
     w' = put_node p (File []) w \<and> node_at w p = None \<and> p \<noteq> []"
  by (auto simp add: os_creat_excl_def split: option.splits if_splits)

lemma fopen_rplus_success:
  "fopen p MODE_RPLUS w = (Some f, w') \<Longrightarrow> w' = w \<and> f = FILE p 0 []"
  by (auto simp add: fopen_def split: option.splits node.splits)

lemma create_and_open_success:
  "puflib_create_and_open p MODE_RPLUS w = (Some f, w') \<Longrightarrow>
     w' = put_node p (File []) w \<and> node_at w p = None \<and> p \<noteq> [] \<and> f = FILE p 0 []"
proof -
  assume a: "puflib_create_and_open p MODE_RPLUS w = (Some f, w')"
  obtain b w1 where o: "os_creat_excl p w = (b, w1)" by (cases "os_creat_excl p w")
  with a have b: "b = False" and f: "fopen p MODE_RPLUS w1 = (Some f, w')"
    by (cases b; simp add: puflib_create_and_open_def)+
  from o b os_creat_excl_success [of p w w1] f fopen_rplus_success [of p w1 f w']
  show ?thesis by simp
qed

lemma in_tl_prefixes: "p \<noteq> [] \<Longrightarrow> p \<in> set (tl (prefixes p))"
  by (cases p) (simp_all)




lemma create_and_open_keeps:
  "node_at w q = Some n \<Longrightarrow> node_at (snd (puflib_create_and_open p m w)) q = Some n"
proof -
  assume a: "node_at w q = Some n"
  obtain b w1 where o: "os_creat_excl p w = (b, w1)" by (cases "os_creat_excl p w")
  show ?thesis
  proof (cases b)
    case True
    with o a show ?thesis
      by (auto simp add: puflib_create_and_open_def os_creat_excl_def split: option.splits if_splits)
  next
    case False
    with o os_creat_excl_success [of p w w1]
    have w1: "w1 = put_node p (File []) w" and np: "node_at w p = None" and pne: "p \<noteq> []"
      by simp_all
    from a np have qp: "q \<noteq> p" by auto
    have f: "faults w1 = faults w" using w1 by (simp add: put_node_def)
    have n1: "node_at w1 p = Some (File [])" using w1 pne by (simp add: node_at_put_node)
    have nq: "node_at w1 q = Some n" using w1 qp a by (auto simp add: node_at_put_node)
    from o False have "puflib_create_and_open p m w = fopen p m w1"
      by (simp add: puflib_create_and_open_def)
    moreover have "node_at (snd (fopen p m w1)) q = Some n"
      using n1 nq qp
      by (cases m) (auto simp add: fopen_def node_at_put_node split: option.splits)
    ultimately show ?thesis by simp
  qed
qed

lemma check_access_node [simp]: "node_at (snd (puflib_check_access p d w)) q = node_at w q"
  by (simp add: puflib_check_access_def split: option.splits node.splits)

lemma create_keeps:
  assumes "node_at w q = Some n"
  shows "node_at (snd (puflib_create_nv_store m t w)) q = Some n"
proof (cases "puflib_get_nv_store_path (name m) t w")
  case None
  with assms show ?thesis by (simp add: puflib_create_nv_store_def)
next
  case (Some p)
  define pw where "pw = (if storage_type_is_dir t
                  then (case puflib_check_access p True w of (r, w') \<Rightarrow> (\<not> r, w'))
                  else (False, w))"
  obtain present w1 where pw1: "pw = (present, w1)" by (cases pw)
  have n1: "node_at w1 q = Some n"
    using pw1 assms check_access_node [of p True w q]
    by (cases "puflib_check_access p True w") (auto simp add: pw_def split: if_splits)
  show ?thesis
  proof (cases present)
    case True
    with Some pw1 n1 show ?thesis
      by (simp add: puflib_create_nv_store_def pw_def [symmetric])
  next
    case False
    obtain b w2 where c: "puflib_create_directory_tree p (\<not> storage_type_is_dir t) w1 = (b, w2)"
      by (cases "puflib_create_directory_tree p (\<not> storage_type_is_dir t) w1")
    then have n2: "node_at w2 q = Some n"
      using mkdirs_keeps [OF n1, of "dirs_to_create p (\<not> storage_type_is_dir t)"]
      by (simp add: puflib_create_directory_tree_def)
    obtain g w3 where o: "puflib_create_and_open p MODE_RPLUS w2 = (g, w3)"
      by (cases "puflib_create_and_open p MODE_RPLUS w2")
    then have n3: "node_at w3 q = Some n"
      using create_and_open_keeps [OF n2, of p MODE_RPLUS] by simp
    have fc: "fclose f w3 = w3" if "g = Some f" for f
      using create_and_open_success [of p w2 f w3] o that by simp
    from Some pw1 False c o n2 n3 fc show ?thesis
      by (cases b; cases g)
         (simp_all add: puflib_create_nv_store_def pw_def [symmetric])
  qed
qed

lemma create_existing_file_fails:
  assumes "puflib_get_nv_store_path (name m) t w = Some p"
    and "\<not> storage_type_is_dir t"
    and "node_at w p = Some (File c)"
  shows "fst (puflib_create_nv_store m t w) = None"
proof -
  obtain b w2 where c: "puflib_create_directory_tree p True w = (b, w2)"
    by (cases "puflib_create_directory_tree p True w")
  then have n2: "node_at w2 p = Some (File c)"
    using mkdirs_keeps [OF assms(3), of "dirs_to_create p True"]
    by (simp add: puflib_create_directory_tree_def)
  then have "fst (puflib_create_and_open p MODE_RPLUS w2) = None"
    by (simp add: puflib_create_and_open_def os_creat_excl_def split: option.splits)
  with assms(1,2) c show ?thesis
    by (cases b; cases "puflib_create_and_open p MODE_RPLUS w2")
       (auto simp add: puflib_create_nv_store_def)
qed

lemma create_success_facts:
  assumes "puflib_create_nv_store m t w = (Some p, w1)"
  shows "puflib_get_nv_store_path (name m) t w1 = Some p"
    and "storage_type_is_dir t \<Longrightarrow> node_at w1 p = Some Dir"
    and "\<not> storage_type_is_dir t \<Longrightarrow> node_at w1 p = Some (File [])"
proof -
  from assms have pth: "nv_store_path w (name m) t = Some p"
    by (auto simp add: puflib_create_nv_store_def puflib_get_nv_store_path_def
          split: option.splits prod.splits if_splits bool.splits)
  have dirc: "node_at w1 p = Some Dir \<and> nv_store_path w1 = nv_store_path w"
    if d: "storage_type_is_dir t"
  proof -
    obtain r w' where c: "puflib_check_access p True w = (r, w')"
      by (cases "puflib_check_access p True w")
    then have w': "w' = snd (puflib_check_access p True w)" by simp
    have nvw': "nv_store_path w' = nv_store_path w"
      unfolding w' using quietD(2) [OF quiet_check_access] by simp
    from assms pth d c have r: "r" and
      mk: "mkdirs (tl (prefixes p)) w' = (False, w1)"
      by (auto simp add: puflib_create_nv_store_def puflib_get_nv_store_path_def
            puflib_create_directory_tree_def dirs_to_create_def
            split: prod.splits if_splits bool.splits)
    have "node_at w1 p = Some Dir"
    proof (cases "p = []")
      case True
      then show ?thesis by simp
    next
      case False
      then show ?thesis using mkdirs_success_dirs [OF mk] in_tl_prefixes by blast
    qed
    moreover have "nv_store_path w1 = nv_store_path w"
      using quiet_mkdirs [of w' "tl (prefixes p)", THEN quietD(2)] mk nvw' by simp
    ultimately show ?thesis by simp
  qed
  have filec: "node_at w1 p = Some (File []) \<and> nv_store_path w1 = nv_store_path w"
    if d: "\<not> storage_type_is_dir t"
  proof -
    obtain b w2 where mk: "mkdirs (butlast (tl (prefixes p))) w = (b, w2)"
      by (cases "mkdirs (butlast (tl (prefixes p))) w")
    from assms pth d mk have b: "\<not> b"
      by (auto simp add: puflib_create_nv_store_def puflib_get_nv_store_path_def
            puflib_create_directory_tree_def dirs_to_create_def
            split: prod.splits if_splits bool.splits)
    obtain g w3 where co: "puflib_create_and_open p MODE_RPLUS w2 = (g, w3)"
      by (cases "puflib_create_and_open p MODE_RPLUS w2")
    from assms pth d mk b co obtain f where g: "g = Some f" and w1f: "w1 = fclose f w3"
      by (auto simp add: puflib_create_nv_store_def puflib_get_nv_store_path_def
            puflib_create_directory_tree_def dirs_to_create_def
            split: option.splits)
    from create_and_open_success [of p w2 f w3] co g
    have w3: "w3 = put_node p (File []) w2" and pne: "p \<noteq> []" and f: "f = FILE p 0 []"
      by simp_all
    from w1f f have w1: "w1 = w3" by simp
    have "nv_store_path w2 = nv_store_path w"
      using quiet_mkdirs [of w "butlast (tl (prefixes p))", THEN quietD(2)] mk by simp
    with w1 w3 pne show ?thesis by (simp add: node_at_put_node)
  qed
  show "puflib_get_nv_store_path (name m) t w1 = Some p"
    using dirc filec pth by (cases "storage_type_is_dir t") (simp_all add: puflib_get_nv_store_path_def)
  show "storage_type_is_dir t \<Longrightarrow> node_at w1 p = Some Dir" using dirc by simp
  show "\<not> storage_type_is_dir t \<Longrightarrow> node_at w1 p = Some (File [])" using filec by simp
qed


subsection \<open>Resuming on an existing temp store\<close>

lemma temp_not_dir [simp]: "\<not> storage_type_is_dir STORAGE_TEMP_FILE"
  "\<not> storage_type_is_dir STORAGE_FINAL_FILE"
  by (simp_all add: storage_type_is_dir_def)

text \<open>
  When creation fails and a file is at the temp path afterwards, \<open>provision\<close>
  reports and goes on with \<open>provision_continue\<close> on that file.
\<close>

lemma provision_resume:
  assumes c: "puflib_create_nv_store MODULE_INFO STORAGE_TEMP_FILE w = (None, w1)"
    and pth: "puflib_get_nv_store_path (name MODULE_INFO) STORAGE_TEMP_FILE w = Some p"
    and isf: "node_at w1 p = Some (File c)"
    and opn: "faults w OP_OPEN p = None"
  shows "provision querybuf w =
           Option.bind
             (puflib_report MODULE_INFO STATUS_INFO
                ''could not create or NV store exists, continuing provision'' w1)
             (provision_continue (FILE p 0 []))"
proof (cases "puflib_report MODULE_INFO STATUS_INFO
                ''could not create or NV store exists, continuing provision'' w1")
  case None
  with c show ?thesis by (simp add: provision_def)
next
  case (Some w2)
  have q1: "quiet w w1" using quiet_create_nv_store [of w MODULE_INFO STORAGE_TEMP_FILE] c by simp
  have "STATUS_CALLBACK w1 = Some HANDLER"
    using Some installed_cases [of w1] by (auto simp add: report_null)
  with Some have w2: "w2 = reported MODULE_INFO STATUS_INFO
                ''could not create or NV store exists, continuing provision'' w1"
    by (simp add: report_installed)
  have p2: "puflib_get_nv_store_path (name MODULE_INFO) STORAGE_TEMP_FILE w2 = Some p"
    using pth quietD(2) [OF q1] by (simp add: w2 puflib_get_nv_store_path_def)
  have n2: "node_at w2 p = Some (File c)" using isf by (simp add: w2)
  have g: "puflib_get_nv_store MODULE_INFO STORAGE_TEMP_FILE w2 = (Some p, w2)"
    using p2 n2 by (simp add: puflib_get_nv_store_def puflib_check_access_def)
  have f2: "faults w2 OP_OPEN p = None" using opn quietD(1) [OF q1] by (simp add: w2)
  have o: "fopen p MODE_RPLUS w2 = (Some (FILE p 0 []), w2)"
    using n2 f2 by (simp add: fopen_def)
  show ?thesis
    using c g o Some by (simp add: provision_def)
qed

lemma fscanf_start:
  "node_at w p = Some (File c) \<Longrightarrow>
   fscanf_d (FILE p 0 []) w = (fst (scan_d c), FILE p (snd (scan_d c)) [])"
  by (simp add: fscanf_d_def split: prod.splits)

lemma provision_continue_corrupt:
  assumes inst: "STATUS_CALLBACK w = Some HANDLER"
    and isf: "node_at w p = Some (File c)"
    and step: "persisted_step c \<noteq> 1" "persisted_step c \<noteq> 2"
  shows "provision_continue (FILE p 0 []) w =
           Some (PROVISION_ERROR,
                 reported MODULE_INFO STATUS_WARN ''NV store corrupted''
                   (reported MODULE_INFO STATUS_INFO ''reading from NV store'' w))"
proof -
  define w1 where "w1 = reported MODULE_INFO STATUS_INFO ''reading from NV store'' w"
  have r1: "puflib_report MODULE_INFO STATUS_INFO ''reading from NV store'' w = Some w1"
    using inst by (simp add: report_installed w1_def)
  have i1: "STATUS_CALLBACK w1 = Some HANDLER" using inst by (simp add: w1_def)
  have n1: "node_at w1 p = Some (File c)" using isf by (simp add: w1_def)
  have sc: "fscanf_d (FILE p 0 []) w1 = (fst (scan_d c), FILE p (snd (scan_d c)) [])"
    using n1 by (rule fscanf_start)
  from step sc r1 i1 show ?thesis
    by (simp add: provision_continue_def persisted_step_def report_installed w1_def [symmetric])
qed


lemma dirs_skip_last: "butlast (tl (prefixes p)) = tl (prefixes (butlast p))"
  by (cases p rule: rev_cases) simp_all

lemma set_tl_prefixes: "d \<in> set (tl (prefixes p)) \<Longrightarrow> prefix d p \<and> d \<noteq> []"
  by (cases p) auto





subsection \<open>Removal\<close>

lemma remove_c_success:
  "remove_c p w = (False, w') \<Longrightarrow> w' = del_node p w \<and> p \<noteq> []"
  by (auto simp add: remove_c_def split: option.splits node.splits if_splits)

lemma remove_c_none:
  "node_at w q = None \<Longrightarrow> node_at (snd (remove_c p w)) q = None"
  by (auto simp add: remove_c_def node_at_del_node split: option.splits node.splits)

lemma remove_each_none:
  "node_at w q = None \<Longrightarrow> node_at (snd (remove_each qs w)) q = None"
proof (induction qs arbitrary: w)
  case Nil
  then show ?case by simp
next
  case (Cons a qs)
  obtain b w1 where o: "remove_c a w = (b, w1)" by (cases "remove_c a w")
  then have "node_at w1 q = None" using remove_c_none [OF Cons.prems, of a] by simp
  with o Cons.IH [of w1] show ?case by (cases b) simp_all
qed

lemma remove_each_success:
  "remove_each qs w = (False, w') \<Longrightarrow> q \<in> set qs \<Longrightarrow> node_at w' q = None"
proof (induction qs arbitrary: w)
  case Nil
  then show ?case by simp
next
  case (Cons a qs)
  obtain b w1 where o: "remove_c a w = (b, w1)" by (cases "remove_c a w")
  with Cons.prems(1) have b: "b = False" and r: "remove_each qs w1 = (False, w')"
    by (cases b; simp)+
  show ?case
  proof (cases "q = a")
    case True
    from o b remove_c_success [of a w w1] have "node_at w1 a = None"
      by (simp add: node_at_del_node)
    with True remove_each_none [of w1 a qs] r show ?thesis by simp
  next
    case False
    with Cons.prems(2) have "q \<in> set qs" by simp
    with Cons.IH [OF r] show ?thesis by simp
  qed
qed

lemma delete_tree_success:
  "puflib_delete_tree d w = (False, w') \<Longrightarrow> node_at w' d = None"
  by (auto simp add: puflib_delete_tree_def split: option.splits node.splits
        dest: remove_each_success [where q = d])

lemma delete_tree_none:
  "node_at w q = None \<Longrightarrow> node_at (snd (puflib_delete_tree d w)) q = None"
  by (simp add: puflib_delete_tree_def remove_each_none split: option.splits node.splits)

lemma get_nv_store_result:
  "fst (puflib_get_nv_store m t w) =
     (case puflib_get_nv_store_path (name m) t w of
        None \<Rightarrow> None
      | Some p \<Rightarrow>
          if (if storage_type_is_dir t then node_at w p = Some Dir else is_file (node_at w p))
          then Some p else None)"
  by (simp add: puflib_get_nv_store_def puflib_check_access_def is_file_def
        split: option.splits node.splits)

lemma get_nv_store_fs [simp]: "fs (snd (puflib_get_nv_store m t w)) = fs w"
  by (simp add: puflib_get_nv_store_def puflib_check_access_def
        split: option.splits node.splits)

lemma final_kinds [simp]:
  "\<not> storage_type_is_dir STORAGE_FINAL_FILE" "storage_type_is_dir STORAGE_FINAL_DIR"
  by (simp_all add: storage_type_is_dir_def)


subsection \<open>Creating a store where none was\<close>

lemma mkdirs_append:
  "mkdirs (as @ bs) w =
     (case mkdirs as w of (True, w') \<Rightarrow> (True, w') | (False, w') \<Rightarrow> mkdirs bs w')"
proof (induction as arbitrary: w)
  case Nil
  show ?case by simp
next
  case (Cons a as)
  obtain b w1 where o: "os_mkdir a w = (b, w1)" by (cases "os_mkdir a w")
  with Cons.IH show ?case by (cases b) simp_all
qed

lemma mkdirs_all_dirs:
  "(\<And>d. d \<in> set ds \<Longrightarrow> node_at w d = Some Dir) \<Longrightarrow> mkdirs ds w = (False, w)"
  by (induction ds) simp_all

lemma tl_prefixes_snoc: "tl (prefixes (xs @ [x])) = tl (prefixes xs) @ [xs @ [x]]"
  by (cases "prefixes xs") simp_all

lemma mkdirs_chain:
  assumes "\<And>d. prefix d p \<Longrightarrow> node_at w d = None \<or> node_at w d = Some Dir"
    and "\<And>d. prefix d p \<Longrightarrow> faults w OP_MKDIR d = None"
  shows "\<exists>w'. mkdirs (tl (prefixes p)) w = (False, w') \<and> errno w' = errno w \<and>
              (\<forall>d. prefix d p \<longrightarrow> node_at w' d = Some Dir) \<and>
              (\<forall>q. \<not> prefix q p \<longrightarrow> node_at w' q = node_at w q)"
  using assms
proof (induction p rule: rev_induct)
  case Nil
  show ?case by simp
next
  case (snoc x xs)
  have "\<exists>w'. mkdirs (tl (prefixes xs)) w = (False, w') \<and> errno w' = errno w \<and>
              (\<forall>d. prefix d xs \<longrightarrow> node_at w' d = Some Dir) \<and>
              (\<forall>q. \<not> prefix q xs \<longrightarrow> node_at w' q = node_at w q)"
  proof (rule snoc.IH)
    fix d assume "prefix d xs"
    then have "prefix d (xs @ [x])" by (simp add: prefix_prefix)
    then show "node_at w d = None \<or> node_at w d = Some Dir" by (rule snoc.prems(1))
  next
    fix d assume "prefix d xs"
    then have "prefix d (xs @ [x])" by (simp add: prefix_prefix)
    then show "faults w OP_MKDIR d = None" by (rule snoc.prems(2))
  qed
  then obtain w1 where m1: "mkdirs (tl (prefixes xs)) w = (False, w1)"
    and e1: "errno w1 = errno w"
    and d1: "\<And>d. prefix d xs \<Longrightarrow> node_at w1 d = Some Dir"
    and o1: "\<And>q. \<not> prefix q xs \<Longrightarrow> node_at w1 q = node_at w q"
    by blast
  have q1: "quiet w w1" using quiet_mkdirs [of w "tl (prefixes xs)"] m1 by simp
  let ?n = "xs @ [x]"
  have np: "\<not> prefix ?n xs" by (simp add: prefix_def)
  have nn: "node_at w1 ?n = node_at w ?n" using o1 [OF np] .
  have alt: "node_at w ?n = None \<or> node_at w ?n = Some Dir" by (rule snoc.prems(1)) simp
  have steps: "mkdirs (tl (prefixes ?n)) w = mkdirs [?n] w1"
    using m1 by (simp add: tl_prefixes_snoc mkdirs_append)
  have pre: "prefix d ?n \<longleftrightarrow> prefix d xs \<or> d = ?n" for d by (auto simp add: prefix_snoc)
  show ?case
  proof (cases "node_at w ?n = Some Dir")
    case True
    with nn steps have "mkdirs (tl (prefixes ?n)) w = (False, w1)" by simp
    moreover have "\<forall>d. prefix d ?n \<longrightarrow> node_at w1 d = Some Dir"
      using d1 nn True pre by auto
    moreover have "\<forall>q. \<not> prefix q ?n \<longrightarrow> node_at w1 q = node_at w q"
      using o1 pre by auto
    ultimately show ?thesis using e1 by blast
  next
    case False
    with alt have absent: "node_at w ?n = None" by simp
    have f: "faults w1 OP_MKDIR ?n = None"
      using snoc.prems(2) [of ?n] quietD(1) [OF q1] by simp
    have par: "parent_error w1 ?n = None"
      using d1 [of xs] by (simp add: parent_error_def)
    have mk: "os_mkdir ?n w1 = (False, put_node ?n Dir w1)"
      using f absent nn par by (simp add: os_mkdir_def)
    let ?w2 = "put_node ?n Dir w1"
    have "mkdirs (tl (prefixes ?n)) w = (False, ?w2)"
      using steps mk absent nn by simp
    moreover have "errno ?w2 = errno w" using e1 by simp
    moreover have "\<forall>d. prefix d ?n \<longrightarrow> node_at ?w2 d = Some Dir"
      using d1 pre by (auto simp add: node_at_put_node)
    moreover have "\<forall>q. \<not> prefix q ?n \<longrightarrow> node_at ?w2 q = node_at w q"
      using o1 pre by (auto simp add: node_at_put_node)
    ultimately show ?thesis by blast
  qed
qed

lemma strict_prefix_butlast: "p \<noteq> [] \<Longrightarrow> strict_prefix d p \<longleftrightarrow> prefix d (butlast p)"
  by (cases p rule: rev_cases) (auto simp add: strict_prefix_def prefix_snoc)

lemma fopen_rplus_file:
  "faults w OP_OPEN p = None \<Longrightarrow> node_at w p = Some (File c) \<Longrightarrow>
   fopen p MODE_RPLUS w = (Some (FILE p 0 []), w)"
  by (simp add: fopen_def)

lemma create_fresh_file:
  assumes pth: "puflib_get_nv_store_path (name m) t w = Some p"
    and nd: "\<not> storage_type_is_dir t"
    and absent: "node_at w p = None"
    and anc: "\<And>d. strict_prefix d p \<Longrightarrow> node_at w d = None \<or> node_at w d = Some Dir"
    and nofault: "\<And>op q. faults w op q = None"
  shows "\<exists>w'. puflib_create_nv_store m t w = (Some p, w') \<and>
              node_at w' p = Some (File []) \<and>
              (\<forall>d. strict_prefix d p \<longrightarrow> node_at w' d = Some Dir) \<and>
              (\<forall>q. \<not> prefix q p \<longrightarrow> node_at w' q = node_at w q)"
proof -
  from absent have pne: "p \<noteq> []" by auto
  have "\<exists>w'. mkdirs (tl (prefixes (butlast p))) w = (False, w') \<and> errno w' = errno w \<and>
              (\<forall>d. prefix d (butlast p) \<longrightarrow> node_at w' d = Some Dir) \<and>
              (\<forall>q. \<not> prefix q (butlast p) \<longrightarrow> node_at w' q = node_at w q)"
  proof (rule mkdirs_chain)
    fix d assume "prefix d (butlast p)"
    then have "strict_prefix d p" using strict_prefix_butlast [OF pne] by simp
    then show "node_at w d = None \<or> node_at w d = Some Dir" by (rule anc)
  next
    fix d show "faults w OP_MKDIR d = None" by (rule nofault)
  qed
  then obtain w2 where m2: "mkdirs (tl (prefixes (butlast p))) w = (False, w2)"
    and d2: "\<And>d. prefix d (butlast p) \<Longrightarrow> node_at w2 d = Some Dir"
    and o2: "\<And>q. \<not> prefix q (butlast p) \<Longrightarrow> node_at w2 q = node_at w q"
    by blast
  have q2: "quiet w w2" using quiet_mkdirs [of w "tl (prefixes (butlast p))"] m2 by simp
  have cdt: "puflib_create_directory_tree p True w = (False, w2)"
    using m2 by (simp add: puflib_create_directory_tree_def dirs_to_create_def dirs_skip_last)
  have npb: "\<not> prefix p (butlast p)"
    using strict_prefix_butlast [OF pne, of p] by simp
  have n2: "node_at w2 p = None" using o2 [OF npb] absent by simp
  have f2: "faults w2 = faults w" using quietD(1) [OF q2] .
  have par: "parent_error w2 p = None" using d2 [of "butlast p"] by (simp add: parent_error_def)
  let ?w3 = "put_node p (File []) w2"
  have ce: "os_creat_excl p w2 = (False, ?w3)"
    using n2 f2 nofault par by (simp add: os_creat_excl_def)
  have n3: "node_at ?w3 p = Some (File [])" using pne by (simp add: node_at_put_node)
  have "fopen p MODE_RPLUS ?w3 = (Some (FILE p 0 []), ?w3)"
    using n3 f2 nofault by (simp add: fopen_rplus_file)
  with ce have co: "puflib_create_and_open p MODE_RPLUS w2 = (Some (FILE p 0 []), ?w3)"
    by (simp add: puflib_create_and_open_def)
  have "puflib_create_nv_store m t w = (Some p, ?w3)"
    using pth nd cdt co by (simp add: puflib_create_nv_store_def)
  moreover have "\<forall>d. strict_prefix d p \<longrightarrow> node_at ?w3 d = Some Dir"
    using d2 strict_prefix_butlast [OF pne] by (auto simp add: node_at_put_node)
  moreover have "\<forall>q. \<not> prefix q p \<longrightarrow> node_at ?w3 q = node_at w q"
  proof (intro allI impI)
    fix q assume nq: "\<not> prefix q p"
    then have "q \<noteq> p" by auto
    moreover from nq have "\<not> prefix q (butlast p)"
      using strict_prefix_butlast [OF pne, of q] by auto
    ultimately show "node_at ?w3 q = node_at w q"
      using o2 [of q] by (auto simp add: node_at_put_node)
  qed
  ultimately show ?thesis using n3 by blast
qed


subsection \<open>The three steps of the test module\<close>

lemma node_at_query [simp]:
  "node_at (snd (snd (puflib_query m k pr b n w))) q = node_at w q"
  by (rule node_at_fs_cong) simp

lemma fclose_env [simp]:
  "faults (fclose f w) = faults w"
  "nv_store_path (fclose f w) = nv_store_path w"
  "asprintf_fails (fclose f w) = asprintf_fails w"
  "STATUS_CALLBACK (fclose f w) = STATUS_CALLBACK w"
  "QUERY_CALLBACK (fclose f w) = QUERY_CALLBACK w"
  "status_log (fclose f w) = status_log w"
  using quiet_fclose [of w f] by (simp_all add: quiet_def)

text \<open>Closing a stream with pending output writes it to the file.\<close>

lemma fclose_pending:
  "faults w OP_WRITE p = None \<Longrightarrow> node_at w p = Some (File c) \<Longrightarrow> s \<noteq> [] \<Longrightarrow>
   fclose (FILE p k s) w = put_node p (File (take k c @ s @ drop (k + length s) c)) w"
  by (simp add: fclose_def fflush_def os_write_def)

text \<open>When the write fails, closing loses the pending output: the file stays as it is.\<close>

lemma fclose_lost:
  "faults w OP_WRITE p = Some e \<Longrightarrow> s \<noteq> [] \<Longrightarrow> fclose (FILE p k s) w = set_errno e w"
  by (simp add: fclose_def fflush_def os_write_def)

lemma provision_start_result:
  assumes inst: "STATUS_CALLBACK w = Some HANDLER"
    and n: "node_at w p = Some (File c)" and fw: "faults w OP_WRITE p = None"
  shows "\<exists>w'. provision_start (FILE p 0 []) b w = Some (PROVISION_INCOMPLETE, w') \<and>
           (\<forall>q. node_at w' q =
               (if q = p then Some (File ((''1'' @ [CHR 0x0A]) @ drop 2 c)) else node_at w q)) \<and>
           faults w' = faults w \<and> nv_store_path w' = nv_store_path w"
proof -
  define w2 where "w2 = reported MODULE_INFO STATUS_INFO
                       ''provisioning will continue after the next invocation''
                       (reported MODULE_INFO STATUS_INFO ''writing to NV store'' w)"
  define w3 where "w3 = put_node p (File ((''1'' @ [CHR 0x0A]) @ drop 2 c)) w2"
  have n2: "node_at w2 p = Some (File c)" and f2: "faults w2 OP_WRITE p = None"
    and i2: "STATUS_CALLBACK w2 = Some HANDLER"
    using n fw inst by (simp_all add: w2_def)
  have cl: "fclose (FILE p 0 (''1'' @ [CHR 0x0A])) w2 = w3"
    using fclose_pending [OF f2 n2, of "''1'' @ [CHR 0x0A]" 0]
    by (simp add: w3_def numeral_2_eq_2)
  have i3: "STATUS_CALLBACK w3 = Some HANDLER" using i2 by (simp add: w3_def)
  define w5 where "w5 = reported_fmt MODULE_INFO STATUS_INFO
       (''query input was: '' @
        c_string ((fst (snd (puflib_query MODULE_INFO ''testquery'' ''Enter any data: '' b 500 w3)))
                    [499 := CHR 0x00]))
       (snd (snd (puflib_query MODULE_INFO ''testquery'' ''Enter any data: '' b 500 w3)))"
  have eq: "provision_start (FILE p 0 []) b w = Some (PROVISION_INCOMPLETE, w5)"
    using inst i2 i3 cl
    by (simp add: provision_start_def fprintf_def report_installed report_fmt_installed
          w2_def [symmetric] w5_def case_prod_beta)
  have pne: "p \<noteq> []" using n by auto
  have "node_at w5 q =
          (if q = p then Some (File ((''1'' @ [CHR 0x0A]) @ drop 2 c)) else node_at w q)" for q
    using pne by (simp add: w5_def w3_def w2_def node_at_put_node)
  moreover have "faults w5 = faults w" "nv_store_path w5 = nv_store_path w"
    by (simp_all add: w5_def w3_def w2_def)
  ultimately show ?thesis using eq by blast
qed

lemma provision_continue_step1:
  assumes inst: "STATUS_CALLBACK w = Some HANDLER"
    and n: "node_at w p = Some (File c)" and st: "persisted_step c = 1"
    and fw: "faults w OP_WRITE p = None"
  shows "\<exists>w'. provision_continue (FILE p 0 []) w = Some (PROVISION_INCOMPLETE, w') \<and>
           (\<forall>q. node_at w' q =
               (if q = p then Some (File ((''2'' @ [CHR 0x0A]) @ drop 2 c)) else node_at w q)) \<and>
           faults w' = faults w \<and> nv_store_path w' = nv_store_path w"
proof -
  define w1 where "w1 = reported MODULE_INFO STATUS_INFO ''reading from NV store'' w"
  have n1: "node_at w1 p = Some (File c)" and i1: "STATUS_CALLBACK w1 = Some HANDLER"
    using n inst by (simp_all add: w1_def)
  have sc: "fscanf_d (FILE p 0 []) w1 = (fst (scan_d c), FILE p (snd (scan_d c)) [])"
    using n1 by (rule fscanf_start)
  define w3 where "w3 = reported MODULE_INFO STATUS_INFO
                       ''provisioning will continue after the next invocation''
                       (reported MODULE_INFO STATUS_INFO ''writing to NV store again'' w1)"
  have n3: "node_at w3 p = Some (File c)" and f3: "faults w3 OP_WRITE p = None"
    using n1 fw by (simp_all add: w3_def w1_def)
  define w4 where "w4 = put_node p (File ((''2'' @ [CHR 0x0A]) @ drop 2 c)) w3"
  have cl: "fclose (FILE p 0 (''2'' @ [CHR 0x0A])) w3 = w4"
    using fclose_pending [OF f3 n3, of "''2'' @ [CHR 0x0A]" 0]
    by (simp add: w4_def numeral_2_eq_2)
  have eq: "provision_continue (FILE p 0 []) w = Some (PROVISION_INCOMPLETE, w4)"
    using inst i1 sc st cl
    by (simp add: provision_continue_def persisted_step_def fprintf_def report_installed
          w1_def [symmetric] w3_def [symmetric])
  have pne: "p \<noteq> []" using n by auto
  have "node_at w4 q =
          (if q = p then Some (File ((''2'' @ [CHR 0x0A]) @ drop 2 c)) else node_at w q)" for q
    using pne by (simp add: w4_def w3_def w1_def node_at_put_node)
  moreover have "faults w4 = faults w" "nv_store_path w4 = nv_store_path w"
    by (simp_all add: w4_def w3_def w1_def)
  ultimately show ?thesis using eq by blast
qed

lemma create_existing_file_exact:
  assumes pth: "puflib_get_nv_store_path (name m) t w = Some p"
    and nd: "\<not> storage_type_is_dir t"
    and isf: "node_at w p = Some (File c)"
    and anc: "\<And>d. strict_prefix d p \<Longrightarrow> node_at w d = Some Dir"
    and nofault: "faults w OP_CREAT p = None"
  shows "puflib_create_nv_store m t w = (None, set_errno EEXIST w)"
proof -
  from isf have pne: "p \<noteq> []" by auto
  have "mkdirs (tl (prefixes (butlast p))) w = (False, w)"
  proof (rule mkdirs_all_dirs)
    fix d assume "d \<in> set (tl (prefixes (butlast p)))"
    then have "prefix d (butlast p)" using set_tl_prefixes by blast
    then have "strict_prefix d p" using strict_prefix_butlast [OF pne] by simp
    then show "node_at w d = Some Dir" by (rule anc)
  qed
  then have cdt: "puflib_create_directory_tree p True w = (False, w)"
    by (simp add: puflib_create_directory_tree_def dirs_to_create_def dirs_skip_last)
  have co: "puflib_create_and_open p MODE_RPLUS w = (None, set_errno EEXIST w)"
    using isf nofault by (simp add: puflib_create_and_open_def os_creat_excl_def)
  show ?thesis
    using pth nd cdt co by (simp add: puflib_create_nv_store_def)
qed

lemma provision_first:
  assumes inst: "STATUS_CALLBACK w = Some HANDLER"
    and pth: "puflib_get_nv_store_path (name MODULE_INFO) STORAGE_TEMP_FILE w = Some p"
    and absent: "node_at w p = None"
    and anc: "\<And>d. strict_prefix d p \<Longrightarrow> node_at w d = None \<or> node_at w d = Some Dir"
    and nofault: "\<And>op q. faults w op q = None"
  shows "\<exists>w'. provision b w = Some (PROVISION_INCOMPLETE, w') \<and>
           node_at w' p = Some (File (''1'' @ [CHR 0x0A])) \<and>
           (\<forall>d. strict_prefix d p \<longrightarrow> node_at w' d = Some Dir) \<and>
           (\<forall>q. \<not> prefix q p \<longrightarrow> node_at w' q = node_at w q) \<and>
           faults w' = faults w \<and> nv_store_path w' = nv_store_path w"
proof -
  from create_fresh_file [OF pth _ absent anc nofault]
  obtain w1 where c: "puflib_create_nv_store MODULE_INFO STORAGE_TEMP_FILE w = (Some p, w1)"
    and n1: "node_at w1 p = Some (File [])"
    and d1: "\<And>d. strict_prefix d p \<Longrightarrow> node_at w1 d = Some Dir"
    and o1: "\<And>q. \<not> prefix q p \<Longrightarrow> node_at w1 q = node_at w q"
    by auto
  have q1: "quiet w w1" using quiet_create_nv_store [of w MODULE_INFO STORAGE_TEMP_FILE] c by simp
  have f1: "faults w1 = faults w" and v1: "nv_store_path w1 = nv_store_path w"
    and i1: "STATUS_CALLBACK w1 = Some HANDLER"
    using quietD(1,2,4) [OF q1] inst by simp_all
  have o: "fopen p MODE_RPLUS w1 = (Some (FILE p 0 []), w1)"
    using n1 f1 nofault by (simp add: fopen_rplus_file)
  define w2 where "w2 = reported MODULE_INFO STATUS_INFO ''creating NV store'' w1"
  have eq: "provision b w = provision_start (FILE p 0 []) b w2"
    using c o i1 by (simp add: provision_def report_installed w2_def)
  have n2: "node_at w2 p = Some (File [])" and f2: "faults w2 OP_WRITE p = None"
    and i2: "STATUS_CALLBACK w2 = Some HANDLER"
    using n1 f1 nofault i1 by (simp_all add: w2_def)
  from provision_start_result [OF i2 n2 f2, of b]
  obtain w' where r: "provision_start (FILE p 0 []) b w2 = Some (PROVISION_INCOMPLETE, w')"
    and nq: "\<And>q. node_at w' q =
               (if q = p then Some (File ((''1'' @ [CHR 0x0A]) @ drop 2 [])) else node_at w2 q)"
    and f': "faults w' = faults w2" and v': "nv_store_path w' = nv_store_path w2"
    by blast
  have sp: "strict_prefix d p \<Longrightarrow> d \<noteq> p" for d by auto
  have np: "\<not> prefix q p \<Longrightarrow> q \<noteq> p" for q by auto
  have "node_at w' p = Some (File (''1'' @ [CHR 0x0A]))" using nq [of p] by simp
  moreover have "\<forall>d. strict_prefix d p \<longrightarrow> node_at w' d = Some Dir"
    using nq d1 sp by (simp add: w2_def)
  moreover have "\<forall>q. \<not> prefix q p \<longrightarrow> node_at w' q = node_at w q"
    using nq o1 np by (simp add: w2_def)
  moreover have "faults w' = faults w" "nv_store_path w' = nv_store_path w"
    using f' v' f1 v1 by (simp_all add: w2_def)
  ultimately show ?thesis using eq r by simp
qed

lemma provision_second:
  assumes inst: "STATUS_CALLBACK w = Some HANDLER"
    and pth: "puflib_get_nv_store_path (name MODULE_INFO) STORAGE_TEMP_FILE w = Some p"
    and isf: "node_at w p = Some (File c)"
    and st: "persisted_step c = 1"
    and anc: "\<And>d. strict_prefix d p \<Longrightarrow> node_at w d = Some Dir"
    and nofault: "\<And>op q. faults w op q = None"
  shows "\<exists>w'. provision b w = Some (PROVISION_INCOMPLETE, w') \<and>
           (\<forall>q. node_at w' q =
               (if q = p then Some (File ((''2'' @ [CHR 0x0A]) @ drop 2 c)) else node_at w q)) \<and>
           faults w' = faults w \<and> nv_store_path w' = nv_store_path w"
proof -
  have c: "puflib_create_nv_store MODULE_INFO STORAGE_TEMP_FILE w = (None, set_errno EEXIST w)"
    using create_existing_file_exact [OF pth _ isf anc nofault] by simp
  define w2 where "w2 = reported MODULE_INFO STATUS_INFO
                ''could not create or NV store exists, continuing provision'' (set_errno EEXIST w)"
  have eq: "provision b w = provision_continue (FILE p 0 []) w2"
    using provision_resume [OF c pth _ nofault, of c b] isf inst
    by (simp add: report_installed w2_def)
  have n2: "node_at w2 p = Some (File c)" and f2: "faults w2 OP_WRITE p = None"
    and i2: "STATUS_CALLBACK w2 = Some HANDLER"
    using isf nofault inst by (simp_all add: w2_def)
  have nq: "node_at w2 q = node_at w q" for q by (simp add: w2_def)
  have e2: "faults w2 = faults w" "nv_store_path w2 = nv_store_path w"
    by (simp_all add: w2_def)
  from provision_continue_step1 [OF i2 n2 st f2]
  show ?thesis unfolding eq nq e2 .
qed


lemma fopen_w_file:
  "faults w OP_OPEN p = None \<Longrightarrow> node_at w p = Some (File c) \<Longrightarrow>
   fopen p MODE_W w = (Some (FILE p 0 []), put_node p (File []) w)"
  by (simp add: fopen_def)

lemma provision_continue_step2:
  assumes inst: "STATUS_CALLBACK w = Some HANDLER"
    and tp: "puflib_get_nv_store_path (name MODULE_INFO) STORAGE_TEMP_FILE w = Some tp"
    and fp: "puflib_get_nv_store_path (name MODULE_INFO) STORAGE_FINAL_FILE w = Some fp"
    and n: "node_at w tp = Some (File c)"
    and st: "persisted_step c = 2"
    and absent: "node_at w fp = None"
    and anc: "\<And>d. strict_prefix d fp \<Longrightarrow> node_at w d = None \<or> node_at w d = Some Dir"
    and unrel: "\<not> prefix tp fp"
    and nofault: "\<And>op q. faults w op q = None"
  shows "\<exists>w'. provision_continue (FILE tp 0 []) w = Some (PROVISION_COMPLETE, w') \<and>
           node_at w' tp = None \<and> node_at w' fp = Some (File ''provisioned'') \<and>
           faults w' = faults w \<and> nv_store_path w' = nv_store_path w"
proof -
  from n have tpne: "tp \<noteq> []" by auto
  from absent have fpne: "fp \<noteq> []" by auto
  define w1 where "w1 = reported MODULE_INFO STATUS_INFO ''reading from NV store'' w"
  have n1: "node_at w1 tp = Some (File c)" and i1: "STATUS_CALLBACK w1 = Some HANDLER"
    using n inst by (simp_all add: w1_def)
  have sc: "fscanf_d (FILE tp 0 []) w1 = (fst (scan_d c), FILE tp (snd (scan_d c)) [])"
    using n1 by (rule fscanf_start)
  define w4 where "w4 = reported MODULE_INFO STATUS_INFO ''deleting NV store''
                       (reported MODULE_INFO STATUS_INFO ''complete'' w1)"
  have nq4: "node_at w4 q = node_at w q" for q by (simp add: w4_def w1_def)
  have f4: "faults w4 = faults w" and v4: "nv_store_path w4 = nv_store_path w"
    by (simp_all add: w4_def w1_def)
  define w5 where "w5 = del_node tp w4"
  have del: "puflib_delete_nv_store MODULE_INFO STORAGE_TEMP_FILE w4 = (False, w5)"
    using tp v4 n nq4 [of tp] f4 nofault
    by (simp add: puflib_delete_nv_store_eq puflib_get_nv_store_path_def remove_c_def w5_def)
  have nq5: "node_at w5 q = (if q = tp then None else node_at w q)" for q
    using nq4 [of q] tpne by (auto simp add: w5_def node_at_del_node)
  have f5: "faults w5 = faults w" and v5: "nv_store_path w5 = nv_store_path w"
    using f4 v4 by (simp_all add: w5_def)
  have fp5: "puflib_get_nv_store_path (name MODULE_INFO) STORAGE_FINAL_FILE w5 = Some fp"
    using fp v5 by (simp add: puflib_get_nv_store_path_def)
  have ab5: "node_at w5 fp = None" using nq5 [of fp] absent by simp
  have anc5: "node_at w5 d = None \<or> node_at w5 d = Some Dir" if "strict_prefix d fp" for d
    using anc [OF that] nq5 [of d] by auto
  have nf5: "faults w5 op q = None" for op q using f5 nofault by simp
  from create_fresh_file [OF fp5 _ ab5 anc5 nf5]
  obtain w6 where c6: "puflib_create_nv_store MODULE_INFO STORAGE_FINAL_FILE w5 = (Some fp, w6)"
    and n6: "node_at w6 fp = Some (File [])"
    and o6: "\<And>q. \<not> prefix q fp \<Longrightarrow> node_at w6 q = node_at w5 q"
    by auto
  have q6: "quiet w5 w6"
    using quiet_create_nv_store [of w5 MODULE_INFO STORAGE_FINAL_FILE] c6 by simp
  have f6: "faults w6 = faults w" and v6: "nv_store_path w6 = nv_store_path w"
    using quietD(1,2) [OF q6] f5 v5 by simp_all
  have t6: "node_at w6 tp = None" using o6 [OF unrel] nq5 [of tp] by simp
  define w7 where "w7 = put_node fp (File []) w6"
  have o7: "fopen fp MODE_W w6 = (Some (FILE fp 0 []), w7)"
    using n6 f6 nofault by (simp add: fopen_w_file w7_def)
  have n7: "node_at w7 fp = Some (File [])" using fpne by (simp add: w7_def node_at_put_node)
  have f7: "faults w7 OP_WRITE fp = None" using f6 nofault by (simp add: w7_def)
  define w8 where "w8 = put_node fp (File ''provisioned'') w7"
  have cl: "fclose (FILE fp 0 ''provisioned'') w7 = w8"
    using fclose_pending [OF f7 n7, of "''provisioned''" 0] by (simp add: w8_def)
  have eq: "provision_continue (FILE tp 0 []) w = Some (PROVISION_COMPLETE, w8)"
    using inst i1 sc st del c6 o7 cl
    by (simp add: provision_continue_def persisted_step_def fputs_def report_installed
          w1_def [symmetric] w4_def [symmetric])
  have tpfp: "tp \<noteq> fp" using unrel by auto
  have "node_at w8 tp = None" using t6 tpfp tpne by (simp add: w8_def w7_def node_at_put_node)
  moreover have "node_at w8 fp = Some (File ''provisioned'')"
    using fpne by (simp add: w8_def node_at_put_node)
  moreover have "faults w8 = faults w" "nv_store_path w8 = nv_store_path w"
    using f6 v6 by (simp_all add: w8_def w7_def)
  ultimately show ?thesis using eq by simp
qed

lemma provision_third:
  assumes inst: "STATUS_CALLBACK w = Some HANDLER"
    and tp: "puflib_get_nv_store_path (name MODULE_INFO) STORAGE_TEMP_FILE w = Some tp"
    and fp: "puflib_get_nv_store_path (name MODULE_INFO) STORAGE_FINAL_FILE w = Some fp"
    and n: "node_at w tp = Some (File c)"
    and st: "persisted_step c = 2"
    and anct: "\<And>d. strict_prefix d tp \<Longrightarrow> node_at w d = Some Dir"
    and absent: "node_at w fp = None"
    and anc: "\<And>d. strict_prefix d fp \<Longrightarrow> node_at w d = None \<or> node_at w d = Some Dir"
    and unrel: "\<not> prefix tp fp"
    and nofault: "\<And>op q. faults w op q = None"
  shows "\<exists>w'. provision b w = Some (PROVISION_COMPLETE, w') \<and>
           node_at w' tp = None \<and> node_at w' fp = Some (File ''provisioned'') \<and>
           faults w' = faults w \<and> nv_store_path w' = nv_store_path w"
proof -
  have c: "puflib_create_nv_store MODULE_INFO STORAGE_TEMP_FILE w = (None, set_errno EEXIST w)"
    using create_existing_file_exact [OF tp _ n anct nofault] by simp
  define w2 where "w2 = reported MODULE_INFO STATUS_INFO
                ''could not create or NV store exists, continuing provision'' (set_errno EEXIST w)"
  have eq: "provision b w = provision_continue (FILE tp 0 []) w2"
    using provision_resume [OF c tp _ nofault, of c b] n inst
    by (simp add: report_installed w2_def)
  have nq: "node_at w2 q = node_at w q" for q by (simp add: w2_def)
  have f2: "faults w2 = faults w" and v2: "nv_store_path w2 = nv_store_path w"
    and i2: "STATUS_CALLBACK w2 = Some HANDLER"
    using inst by (simp_all add: w2_def)
  have "\<exists>w'. provision_continue (FILE tp 0 []) w2 = Some (PROVISION_COMPLETE, w') \<and>
           node_at w' tp = None \<and> node_at w' fp = Some (File ''provisioned'') \<and>
           faults w' = faults w2 \<and> nv_store_path w' = nv_store_path w2"
  proof (rule provision_continue_step2 [where c = c])
    show "STATUS_CALLBACK w2 = Some HANDLER" by (rule i2)
    show "puflib_get_nv_store_path (name MODULE_INFO) STORAGE_TEMP_FILE w2 = Some tp"
      using tp v2 by (simp add: puflib_get_nv_store_path_def)
    show "puflib_get_nv_store_path (name MODULE_INFO) STORAGE_FINAL_FILE w2 = Some fp"
      using fp v2 by (simp add: puflib_get_nv_store_path_def)
    show "node_at w2 tp = Some (File c)" using n nq by simp
    show "persisted_step c = 2" by (rule st)
    show "node_at w2 fp = None" using absent nq by simp
    show "node_at w2 d = None \<or> node_at w2 d = Some Dir" if "strict_prefix d fp" for d
      using anc [OF that] nq by simp
    show "\<not> prefix tp fp" by (rule unrel)
    show "faults w2 op q = None" for op q using nofault f2 by simp
  qed
  with eq f2 v2 show ?thesis by simp
qed


text \<open>Without a status handler the first report of \<open>provision\<close> does not return.\<close>

lemma provision_null:
  assumes "STATUS_CALLBACK w = None"
  shows "provision b w = None"
proof -
  obtain r w1 where c: "puflib_create_nv_store MODULE_INFO STORAGE_TEMP_FILE w = (r, w1)"
    by (cases "puflib_create_nv_store MODULE_INFO STORAGE_TEMP_FILE w")
  have q1: "quiet w w1" using quiet_create_nv_store [of w MODULE_INFO STORAGE_TEMP_FILE] c by simp
  have i1: "STATUS_CALLBACK w1 = None" using quietD(4) [OF q1] assms by simp
  show ?thesis
  proof (cases r)
    case None
    with c i1 show ?thesis by (simp add: provision_def report_null)
  next
    case (Some p)
    obtain g w2 where o: "fopen p MODE_RPLUS w1 = (g, w2)" by (cases "fopen p MODE_RPLUS w1")
    have "quiet w1 w2" using quiet_fopen [of w1 p MODE_RPLUS] o by simp
    then have i2: "STATUS_CALLBACK w2 = None" using quietD(4) i1 by simp
    from c Some o i2 show ?thesis
      by (cases g) (simp_all add: provision_def report_null perror_null)
  qed
qed


subsection \<open>The status probe\<close>

lemma check_access_fst:
  "fst (puflib_check_access p d w) =
     (if d then node_at w p \<noteq> Some Dir else \<not> is_file (node_at w p))"
  by (simp add: puflib_check_access_def is_file_def split: option.splits node.splits)

lemma check_access_fs [simp]: "fs (snd (puflib_check_access p d w)) = fs w"
  by (simp add: puflib_check_access_def split: option.splits node.splits)

lemma module_status_value:
  assumes "puflib_get_nv_store_path (name m) STORAGE_FINAL_FILE w = Some path_f"
    and "puflib_get_nv_store_path (name m) STORAGE_FINAL_DIR w = Some path_d"
    and "puflib_get_nv_store_path (name m) STORAGE_DISABLED_FILE w = Some path_dis_f"
    and "puflib_get_nv_store_path (name m) STORAGE_DISABLED_DIR w = Some path_dis_d"
  shows "fst (puflib_module_status m w) =
        MODULE_STATUS
          ((if is_file (node_at w path_dis_f) \<or> node_at w path_dis_d = Some Dir
            then {MODULE_PROVISIONED, MODULE_DISABLED} else {}) \<union>
           (if is_file (node_at w path_f) \<or> node_at w path_d = Some Dir
            then {MODULE_PROVISIONED} else {}))"
    and "fs (snd (puflib_module_status m w)) = fs w"
  using assms
  by (auto simp add: puflib_module_status_def Let_def case_prod_beta check_access_fst)

lemma step_one_two:
  "persisted_step (''1'' @ [CHR 0x0A]) = 1" "persisted_step (''2'' @ [CHR 0x0A]) = 2"
  by (simp_all add: persisted_step_def scan_d_def isspace_def isdigit_def decimal_def
        digit_val_def strtol_range_def int_of_long_def)


section \<open>Unfolding the model on concrete worlds\<close>

lemmas os_defs =
  node_at_def set_errno_def put_node_def del_node_def parent_error_def os_mkdir_def
  os_creat_excl_def fopen_def os_write_def fflush_def fclose_def rewind_def fprintf_def
  fputs_def has_children_def remove_c_def fscanf_d_def scan_d_def isspace_def isdigit_def
  digit_val_def decimal_def strtol_range_def int_of_long_def

lemmas platform_defs =
  puflib_get_nv_store_path_def puflib_check_access_def dirs_to_create_def
  puflib_create_directory_tree_def puflib_create_and_open_def entries_below_def
  puflib_delete_tree_def puflib_asprintf_def puflib_vasprintf_def

lemmas puflib_defs =
  storage_type_is_dir_def puflib_module_status_def puflib_create_nv_store_def
  puflib_get_nv_store_def puflib_delete_nv_store_def puflib_deprovision_def
  STATUS_CALLBACK_call_def level_as_string_def puflib_report_def puflib_report_fmt_def
  puflib_perror_def puflib_query_def strerror_def

lemmas example_defs =
  MODULE_INFO_def startup_world_def empty_world_def puflib_set_status_handler_def
  example_paths_def kind_name_def temp_path_def final_path_def resumed_world_def


lemmas module_defs = c_string_def provision_start_def provision_continue_def provision_def


section \<open>The callback bus\<close>

text \<open>
  C5: with no query handler installed, \<open>puflib_query\<close> returns the failure signal
  at once and hands the buffer back as it was (it only clears \<^verbatim>\<open>errno\<close>); with a
  handler installed it returns the handler's signal and the handler's buffer, and
  leaves the world as it found it.
\<close>

theorem puflib_query_delegates:
  "(QUERY_CALLBACK w = None \<longrightarrow>
      puflib_query m key prompt buffer buflen w = (True, buffer, w\<lparr>errno := E0\<rparr>)) \<and>
   (\<forall>cb. QUERY_CALLBACK w = Some cb \<longrightarrow>
      puflib_query m key prompt buffer buflen w =
        (fst (cb m key prompt buffer buflen), snd (cb m key prompt buffer buflen), w))"
  by (simp add: puflib_query_def set_errno_def split: prod.splits)

theorem puflib_query_delegates_witness:
  "puflib_query MODULE_INFO ''testquery'' ''Enter any data: '' ''zzzz'' 2 empty_world
     = (True, ''zzzz'', empty_world\<lparr>errno := E0\<rparr>) \<and>
   puflib_query MODULE_INFO ''testquery'' ''Enter any data: '' ''zzzz'' 2
       (puflib_set_query_handler (Some example_handler) empty_world)
     = (False, ''ye'', puflib_set_query_handler (Some example_handler) empty_world)"
proof -
  have a: "QUERY_CALLBACK empty_world = None"
    by (simp add: empty_world_def startup_world_def puflib_set_status_handler_def)
  have b: "QUERY_CALLBACK (puflib_set_query_handler (Some example_handler) empty_world)
             = Some example_handler"
    by (simp add: puflib_set_query_handler_def)
  show ?thesis
    using puflib_query_delegates
            [of empty_world MODULE_INFO "''testquery''" "''Enter any data: ''" "''zzzz''" 2]
      puflib_query_delegates
            [of "puflib_set_query_handler (Some example_handler) empty_world"
                MODULE_INFO "''testquery''" "''Enter any data: ''" "''zzzz''" 2]
      a b
    by (simp add: example_handler_def)
qed

text \<open>
  C6 fails on the code. \<open>puflib_report\<close> calls through the status handler slot
  without testing it, and the slot is NULL until the caller installs a handler:
  in the library's initial state a report does not return, whatever the module,
  level and message (lemma \<open>report_null\<close>), and so does not \<open>provision\<close>. The
  sibling \<open>puflib_query\<close> tests its slot and returns the failure signal in the
  same state. Once a handler is installed the same report returns and hands it
  one string (lemmas \<open>report_installed\<close> and \<open>report_log\<close> for every world).
\<close>

theorem puflib_report_null_handler:
  "puflib_report MODULE_INFO STATUS_INFO ''creating NV store'' startup_world = None \<and>
   provision [] startup_world = None \<and>
   puflib_query MODULE_INFO ''testquery'' ''Enter any data: '' ''zzzz'' 4 startup_world
     = (True, ''zzzz'', startup_world) \<and>
   puflib_report MODULE_INFO STATUS_INFO ''creating NV store''
       (puflib_set_status_handler (Some HANDLER) startup_world)
     = Some (puflib_set_status_handler (Some HANDLER) startup_world
               \<lparr>status_log := [''info (puflibtest): creating NV store'']\<rparr>)"
  by (simp add: os_defs platform_defs puflib_defs example_defs module_defs)

text \<open>
  C7: with a status handler installed and a message that can be formatted,
  \<open>puflib_report\<close> returns, and the string it has handed to the handler is
  \<^verbatim>\<open><level> (<module name>): <message>\<close>, where the level is \<^verbatim>\<open>info\<close> for
  \<open>STATUS_INFO\<close>, \<^verbatim>\<open>warn\<close> for \<open>STATUS_WARN\<close> and \<^verbatim>\<open>error\<close> for \<open>STATUS_ERROR\<close>
  and for every other value.
\<close>

theorem puflib_report_renders:
  "STATUS_CALLBACK w = Some HANDLER \<Longrightarrow>
   \<not> asprintf_fails w
       ((if level = STATUS_INFO then ''info''
         else if level = STATUS_WARN then ''warn'' else ''error'')
          @ '' ('' @ name m @ ''): '' @ msg) \<Longrightarrow>
   \<exists>w'. puflib_report m level msg w = Some w' \<and>
     status_log w' =
       status_log w @
         [(if level = STATUS_INFO then ''info''
           else if level = STATUS_WARN then ''warn'' else ''error'')
            @ '' ('' @ name m @ ''): '' @ msg]"
  by (cases level)
     (simp_all add: puflib_report_def puflib_asprintf_def STATUS_CALLBACK_call_def
        level_as_string_def)

theorem puflib_report_renders_witness:
  "(\<exists>w'. puflib_report MODULE_INFO STATUS_INFO ''hello'' empty_world = Some w' \<and>
      status_log w' = [''info (puflibtest): hello'']) \<and>
   (\<exists>w'. puflib_report MODULE_INFO STATUS_WARN ''hello'' empty_world = Some w' \<and>
      status_log w' = [''warn (puflibtest): hello'']) \<and>
   (\<exists>w'. puflib_report MODULE_INFO STATUS_ERROR ''hello'' empty_world = Some w' \<and>
      status_log w' = [''error (puflibtest): hello'']) \<and>
   (\<exists>w'. puflib_report MODULE_INFO (STATUS_UNRECOGNIZED 7) ''hello'' empty_world = Some w' \<and>
      status_log w' = [''error (puflibtest): hello''])"
proof -
  have h: "STATUS_CALLBACK empty_world = Some HANDLER"
    and f: "\<not> asprintf_fails empty_world s"
    and l: "status_log empty_world = []" for s
    by (simp_all add: empty_world_def startup_world_def puflib_set_status_handler_def)
  have n: "name MODULE_INFO = ''puflibtest''" by (simp add: MODULE_INFO_def)
  show ?thesis
    using puflib_report_renders
        [where w = empty_world and level = STATUS_INFO and m = MODULE_INFO and msg = "''hello''",
         OF h f]
      puflib_report_renders
        [where w = empty_world and level = STATUS_WARN and m = MODULE_INFO and msg = "''hello''",
         OF h f]
      puflib_report_renders
        [where w = empty_world and level = STATUS_ERROR and m = MODULE_INFO and msg = "''hello''",
         OF h f]
      puflib_report_renders
        [where w = empty_world and level = "STATUS_UNRECOGNIZED 7" and m = MODULE_INFO and msg = "''hello''",
         OF h f]
    by (simp add: l n)
qed

section \<open>The NV store manager\<close>

text \<open>
  C3: for a directory storage kind whose target already exists as a directory,
  \<open>puflib_create_nv_store\<close> returns no path, sets \<^verbatim>\<open>errno\<close> to \<open>EEXIST\<close> and
  changes nothing else: the existing tree stays as it is.
\<close>

theorem create_existing_dir_fails:
  "storage_type_is_dir t \<Longrightarrow>
   puflib_get_nv_store_path (name m) t w = Some p \<Longrightarrow>
   node_at w p = Some Dir \<Longrightarrow>
   puflib_create_nv_store m t w = (None, w\<lparr>errno := EEXIST\<rparr>)"
  by (simp add: puflib_create_nv_store_def puflib_check_access_def set_errno_def)

theorem create_existing_dir_fails_witness:
  "storage_type_is_dir STORAGE_FINAL_DIR \<and>
   puflib_get_nv_store_path (name MODULE_INFO) STORAGE_FINAL_DIR dir_store_world
     = Some [''puflib'', ''puflibtest'', ''final_dir''] \<and>
   node_at dir_store_world [''puflib'', ''puflibtest'', ''final_dir''] = Some Dir \<and>
   puflib_create_nv_store MODULE_INFO STORAGE_FINAL_DIR dir_store_world
     = (None, dir_store_world\<lparr>errno := EEXIST\<rparr>)"
proof -
  have a: "storage_type_is_dir STORAGE_FINAL_DIR"
    by (simp add: storage_type_is_dir_def)
  have b: "puflib_get_nv_store_path (name MODULE_INFO) STORAGE_FINAL_DIR dir_store_world
             = Some [''puflib'', ''puflibtest'', ''final_dir'']"
    by (simp add: puflib_get_nv_store_path_def dir_store_world_def example_defs)
  have c: "node_at dir_store_world [''puflib'', ''puflibtest'', ''final_dir''] = Some Dir"
    by (simp add: node_at_def dir_store_world_def)
  show ?thesis
    using a b c create_existing_dir_fails [OF a b c] by simp
qed

text \<open>
  C9: whenever \<open>puflib_create_nv_store\<close> returns a path, \<open>puflib_get_nv_store\<close>
  for the same module and storage kind, run on the world creation left, returns
  that same path.
\<close>

theorem create_then_get:
  assumes "puflib_create_nv_store m t w = (Some p, w1)"
  shows "puflib_get_nv_store m t w1 = (Some p, w1)"
  using create_success_facts [OF assms]
  by (cases "storage_type_is_dir t")
     (simp_all add: puflib_get_nv_store_def puflib_check_access_def)

theorem create_then_get_witness:
  "puflib_create_nv_store MODULE_INFO STORAGE_FINAL_DIR empty_world =
     (Some [''puflib'', ''puflibtest'', ''final_dir''],
      empty_world\<lparr>fs := [([''puflib''], Dir), ([''puflib'', ''puflibtest''], Dir),
                           ([''puflib'', ''puflibtest'', ''final_dir''], Dir)],
                   errno := ENOENT\<rparr>) \<and>
   puflib_get_nv_store MODULE_INFO STORAGE_FINAL_DIR
     (empty_world\<lparr>fs := [([''puflib''], Dir), ([''puflib'', ''puflibtest''], Dir),
                           ([''puflib'', ''puflibtest'', ''final_dir''], Dir)],
                   errno := ENOENT\<rparr>) =
     (Some [''puflib'', ''puflibtest'', ''final_dir''],
      empty_world\<lparr>fs := [([''puflib''], Dir), ([''puflib'', ''puflibtest''], Dir),
                           ([''puflib'', ''puflibtest'', ''final_dir''], Dir)],
                   errno := ENOENT\<rparr>) \<and>
   puflib_create_nv_store MODULE_INFO STORAGE_TEMP_FILE empty_world =
     (Some temp_path,
      empty_world\<lparr>fs := [([''puflib''], Dir), ([''puflib'', ''puflibtest''], Dir),
                           (temp_path, File [])]\<rparr>) \<and>
   puflib_get_nv_store MODULE_INFO STORAGE_TEMP_FILE
     (empty_world\<lparr>fs := [([''puflib''], Dir), ([''puflib'', ''puflibtest''], Dir),
                           (temp_path, File [])]\<rparr>) =
     (Some temp_path,
      empty_world\<lparr>fs := [([''puflib''], Dir), ([''puflib'', ''puflibtest''], Dir),
                           (temp_path, File [])]\<rparr>)"
proof -
  have a: "puflib_create_nv_store MODULE_INFO STORAGE_FINAL_DIR empty_world =
     (Some [''puflib'', ''puflibtest'', ''final_dir''],
      empty_world\<lparr>fs := [([''puflib''], Dir), ([''puflib'', ''puflibtest''], Dir),
                           ([''puflib'', ''puflibtest'', ''final_dir''], Dir)],
                   errno := ENOENT\<rparr>)"
    by (simp add: os_defs platform_defs puflib_defs example_defs)
  have b: "puflib_create_nv_store MODULE_INFO STORAGE_TEMP_FILE empty_world =
     (Some temp_path,
      empty_world\<lparr>fs := [([''puflib''], Dir), ([''puflib'', ''puflibtest''], Dir),
                           (temp_path, File [])]\<rparr>)"
    by (simp add: os_defs platform_defs puflib_defs example_defs)
  show ?thesis
    using create_then_get [OF a] create_then_get [OF b] a b by simp
qed

section \<open>The provisioning state machine\<close>

text \<open>
  What the default branch of \<open>provision_continue\<close> does. When the temp store is
  a file that opens and the step that \<^verbatim>\<open>fscanf\<close> stores is neither 1 nor 2
  (content without a number leaves the step at 0), \<open>provision\<close> returns
  \<open>PROVISION_ERROR\<close>, its last report is the warning that the NV store is
  corrupted, the store keeps its content, and no node that existed is changed or
  removed.
\<close>

lemma provision_default_branch:
  assumes inst: "STATUS_CALLBACK w = Some HANDLER"
    and pth: "puflib_get_nv_store_path (name MODULE_INFO) STORAGE_TEMP_FILE w = Some p"
    and isf: "node_at w p = Some (File c)"
    and opn: "faults w OP_OPEN p = None"
    and step: "persisted_step c \<noteq> 1 \<and> persisted_step c \<noteq> 2"
    and fmt: "\<not> asprintf_fails w ''warn (puflibtest): NV store corrupted''"
  shows "\<exists>w'. provision querybuf w = Some (PROVISION_ERROR, w') \<and>
           last (status_log w') = ''warn (puflibtest): NV store corrupted'' \<and>
           node_at w' p = Some (File c) \<and>
           (\<forall>q n. node_at w q = Some n \<longrightarrow> node_at w' q = Some n)"
proof -
  obtain r w1 where c: "puflib_create_nv_store MODULE_INFO STORAGE_TEMP_FILE w = (r, w1)"
    by (cases "puflib_create_nv_store MODULE_INFO STORAGE_TEMP_FILE w")
  have r: "r = None"
    using create_existing_file_fails [OF pth _ isf] c by simp
  have q1: "quiet w w1" using quiet_create_nv_store [of w MODULE_INFO STORAGE_TEMP_FILE] c by simp
  have i1: "STATUS_CALLBACK w1 = Some HANDLER" using quietD(4) [OF q1] inst by simp
  have keep: "node_at w1 q = Some n" if "node_at w q = Some n" for q n
    using create_keeps [OF that, of MODULE_INFO STORAGE_TEMP_FILE] c by simp
  define w2 where "w2 = reported MODULE_INFO STATUS_INFO
                ''could not create or NV store exists, continuing provision'' w1"
  define w3 where "w3 = reported MODULE_INFO STATUS_INFO ''reading from NV store'' w2"
  define w4 where "w4 = reported MODULE_INFO STATUS_WARN ''NV store corrupted'' w3"
  have n2: "node_at w2 p = Some (File c)" and i2: "STATUS_CALLBACK w2 = Some HANDLER"
    using keep [OF isf] i1 by (simp_all add: w2_def)
  have res: "provision querybuf w = Some (PROVISION_ERROR, w4)"
    using provision_resume [OF c [unfolded r] pth keep [OF isf] opn, of querybuf]
      provision_continue_corrupt [OF i2 n2] step i1
    by (simp add: report_installed w2_def w3_def w4_def)
  have a3: "asprintf_fails w3 = asprintf_fails w"
    using quietD(3) [OF q1] by (simp add: w3_def w2_def)
  have lg: "last (status_log w4) = ''warn (puflibtest): NV store corrupted''"
    using fmt a3 by (simp add: w4_def report_log level_as_string_def MODULE_INFO_def)
  have nn: "node_at w4 q = node_at w1 q" for q
    by (simp add: w4_def w3_def w2_def)
  show ?thesis
    using res lg nn keep isf by simp
qed

text \<open>
  C2 fails on the code. The temp store holds \<^verbatim>\<open>4294967297\<close>, a value that is
  neither 1 nor 2. \<^verbatim>\<open>fscanf\<close> stores it into an \<^verbatim>\<open>int\<close>, where it arrives as 1:
  \<open>provision\<close> takes the branch of step 1, writes step 2 over the start of the
  store, reports no warning and returns \<open>PROVISION_INCOMPLETE\<close>.
\<close>

theorem out_of_range_step_is_resumed:
  "decimal ''4294967297'' = 4294967297 \<and>
   persisted_step ''4294967297'' = 1 \<and>
   provision [] (resumed_world ''4294967297'') =
     Some (PROVISION_INCOMPLETE,
           resumed_world ''4294967297''
             \<lparr>fs := [([''puflib''], Dir), ([''puflib'', ''puflibtest''], Dir),
                     (temp_path, File (''2'' @ [CHR 0x0A] @ ''94967297''))],
              errno := EEXIST,
              status_log :=
                [''info (puflibtest): could not create or NV store exists, continuing provision'',
                 ''info (puflibtest): reading from NV store'',
                 ''info (puflibtest): writing to NV store again'',
                 ''info (puflibtest): provisioning will continue after the next invocation'']\<rparr>)"
  by (simp add: persisted_step_def os_defs platform_defs puflib_defs example_defs module_defs)




text \<open>
  C1: start from storage in which the module has neither a temp nor a final
  store (their ancestors are missing or are directories), in an environment
  that refuses nothing. Three invocations of \<open>provision\<close>, each in a process of
  its own that has installed a status handler and runs on the storage the
  invocation before left, go: the first returns \<open>PROVISION_INCOMPLETE\<close> with the
  temp store holding \<^verbatim>\<open>1\<close> and a newline; the second returns
  \<open>PROVISION_INCOMPLETE\<close> with the temp store holding \<^verbatim>\<open>2\<close> and a newline; the
  third returns \<open>PROVISION_COMPLETE\<close> with the temp store gone and the final store
  holding \<^verbatim>\<open>provisioned\<close>. The module status then has the \<open>MODULE_PROVISIONED\<close>
  flag. (An invocation that returns has a status handler: lemma \<open>provision_null\<close>.)
\<close>

theorem provision_round_trip:
  assumes tp: "puflib_get_nv_store_path (name MODULE_INFO) STORAGE_TEMP_FILE w0 = Some tp"
    and fp: "puflib_get_nv_store_path (name MODULE_INFO) STORAGE_FINAL_FILE w0 = Some fp"
    and others: "puflib_get_nv_store_path (name MODULE_INFO) STORAGE_FINAL_DIR w0 \<noteq> None \<and>
                 puflib_get_nv_store_path (name MODULE_INFO) STORAGE_DISABLED_FILE w0 \<noteq> None \<and>
                 puflib_get_nv_store_path (name MODULE_INFO) STORAGE_DISABLED_DIR w0 \<noteq> None"
    and empty: "node_at w0 tp = None \<and> node_at w0 fp = None"
    and anc: "\<forall>d. strict_prefix d tp \<or> strict_prefix d fp \<longrightarrow>
                  node_at w0 d = None \<or> node_at w0 d = Some Dir"
    and unrel: "\<not> prefix tp fp \<and> \<not> prefix fp tp"
    and nofault: "\<forall>op q. faults w0 op q = None"
    and inst: "STATUS_CALLBACK w0 = Some HANDLER"
  shows "\<exists>w1. provision b1 w0 = Some (PROVISION_INCOMPLETE, w1) \<and>
           node_at w1 tp = Some (File (''1'' @ [CHR 0x0A])) \<and>
           (\<forall>w1'. same_storage w1 w1' \<and> STATUS_CALLBACK w1' = Some HANDLER \<longrightarrow>
              (\<exists>w2. provision b2 w1' = Some (PROVISION_INCOMPLETE, w2) \<and>
                 node_at w2 tp = Some (File (''2'' @ [CHR 0x0A])) \<and>
                 (\<forall>w2'. same_storage w2 w2' \<and> STATUS_CALLBACK w2' = Some HANDLER \<longrightarrow>
                    (\<exists>w3. provision b3 w2' = Some (PROVISION_COMPLETE, w3) \<and>
                       node_at w3 tp = None \<and>
                       node_at w3 fp = Some (File ''provisioned'') \<and>
                       (\<exists>flags. fst (puflib_module_status MODULE_INFO w3) = MODULE_STATUS flags \<and>
                                MODULE_PROVISIONED \<in> flags)))))"
proof -
  have nf0: "faults w0 op q = None" for op q using nofault by simp
  have anc_t: "node_at w0 d = None \<or> node_at w0 d = Some Dir" if "strict_prefix d tp" for d
    using anc that by blast
  have anc_f: "node_at w0 d = None \<or> node_at w0 d = Some Dir" if "strict_prefix d fp" for d
    using anc that by blast
  from empty have e_t: "node_at w0 tp = None" and e_f: "node_at w0 fp = None" by simp_all
  from unrel have ntf: "\<not> prefix tp fp" and nft: "\<not> prefix fp tp" by simp_all
  have fptp: "fp \<noteq> tp" using ntf by auto
  \<comment> \<open>first invocation\<close>
  from provision_first [OF inst tp e_t anc_t nf0, of b1]
  obtain w1 where c1: "provision b1 w0 = Some (PROVISION_INCOMPLETE, w1)"
    and n1: "node_at w1 tp = Some (File (''1'' @ [CHR 0x0A]))"
    and d1: "\<And>d. strict_prefix d tp \<Longrightarrow> node_at w1 d = Some Dir"
    and o1: "\<And>q. \<not> prefix q tp \<Longrightarrow> node_at w1 q = node_at w0 q"
    and f1: "faults w1 = faults w0" and v1: "nv_store_path w1 = nv_store_path w0"
    by blast
  \<comment> \<open>second invocation, in a new process\<close>
  have second:
    "\<exists>w2. provision b2 w1' = Some (PROVISION_INCOMPLETE, w2) \<and>
       node_at w2 tp = Some (File (''2'' @ [CHR 0x0A])) \<and>
       (\<forall>w2'. same_storage w2 w2' \<and> STATUS_CALLBACK w2' = Some HANDLER \<longrightarrow>
          (\<exists>w3. provision b3 w2' = Some (PROVISION_COMPLETE, w3) \<and>
             node_at w3 tp = None \<and>
             node_at w3 fp = Some (File ''provisioned'') \<and>
             (\<exists>flags. fst (puflib_module_status MODULE_INFO w3) = MODULE_STATUS flags \<and>
                      MODULE_PROVISIONED \<in> flags)))"
    if proc2: "same_storage w1 w1'" and inst2: "STATUS_CALLBACK w1' = Some HANDLER" for w1'
  proof -
    from proc2 have s1: "fs w1' = fs w1" "faults w1' = faults w1"
      "nv_store_path w1' = nv_store_path w1"
      by (simp_all add: same_storage_def)
    have nq1: "node_at w1' q = node_at w1 q" for q using s1(1) by (rule node_at_fs_cong)
    have tp1: "puflib_get_nv_store_path (name MODULE_INFO) STORAGE_TEMP_FILE w1' = Some tp"
      using tp s1(3) v1 by (simp add: puflib_get_nv_store_path_def)
    have nf1: "faults w1' op q = None" for op q using nf0 s1(2) f1 by simp
    have n1': "node_at w1' tp = Some (File (''1'' @ [CHR 0x0A]))" using n1 nq1 by simp
    have d1': "node_at w1' d = Some Dir" if "strict_prefix d tp" for d
      using d1 [OF that] nq1 by simp
    from provision_second [OF inst2 tp1 n1' step_one_two(1) d1' nf1, of b2]
    obtain w2 where c2: "provision b2 w1' = Some (PROVISION_INCOMPLETE, w2)"
      and n2: "\<And>q. node_at w2 q =
                 (if q = tp then Some (File ((''2'' @ [CHR 0x0A]) @ drop 2 (''1'' @ [CHR 0x0A])))
                  else node_at w1' q)"
      and f2: "faults w2 = faults w1'" and v2: "nv_store_path w2 = nv_store_path w1'"
      by blast
    \<comment> \<open>third invocation, in a new process\<close>
    have third:
      "\<exists>w3. provision b3 w2' = Some (PROVISION_COMPLETE, w3) \<and>
         node_at w3 tp = None \<and>
         node_at w3 fp = Some (File ''provisioned'') \<and>
         (\<exists>flags. fst (puflib_module_status MODULE_INFO w3) = MODULE_STATUS flags \<and>
                  MODULE_PROVISIONED \<in> flags)"
      if proc3: "same_storage w2 w2'" and inst3: "STATUS_CALLBACK w2' = Some HANDLER" for w2'
    proof -
      from proc3 have s2: "fs w2' = fs w2" "faults w2' = faults w2"
        "nv_store_path w2' = nv_store_path w2"
        by (simp_all add: same_storage_def)
      have nq2: "node_at w2' q =
                   (if q = tp then Some (File (''2'' @ [CHR 0x0A])) else node_at w1 q)" for q
        using node_at_fs_cong [OF s2(1), of q] n2 [of q] nq1 [of q] by simp
      have v2': "nv_store_path w2' = nv_store_path w0" using s2(3) v2 s1(3) v1 by simp
      have tp2: "puflib_get_nv_store_path (name MODULE_INFO) STORAGE_TEMP_FILE w2' = Some tp"
        and fp2: "puflib_get_nv_store_path (name MODULE_INFO) STORAGE_FINAL_FILE w2' = Some fp"
        using tp fp v2' by (simp_all add: puflib_get_nv_store_path_def)
      have nf2: "faults w2' op q = None" for op q using nf1 s2(2) f2 by simp
      have n2': "node_at w2' tp = Some (File (''2'' @ [CHR 0x0A]))" using nq2 by simp
      have d2': "node_at w2' d = Some Dir" if "strict_prefix d tp" for d
        using d1 [OF that] nq2 [of d] that by auto
      have e2': "node_at w2' fp = None" using nq2 [of fp] fptp o1 [OF nft] e_f by simp
      have a2': "node_at w2' d = None \<or> node_at w2' d = Some Dir"
        if sp: "strict_prefix d fp" for d
      proof -
        from sp ntf have dtp: "d \<noteq> tp" by (auto simp add: strict_prefix_def)
        show ?thesis
        proof (cases "prefix d tp")
          case True
          with dtp have "strict_prefix d tp" by (simp add: strict_prefix_def)
          from d1 [OF this] nq2 [of d] dtp show ?thesis by simp
        next
          case False
          from o1 [OF False] anc_f [OF sp] nq2 [of d] dtp show ?thesis by simp
        qed
      qed
      from provision_third [OF inst3 tp2 fp2 n2' step_one_two(2) d2' e2' a2' ntf nf2, of b3]
      obtain w3 where c3: "provision b3 w2' = Some (PROVISION_COMPLETE, w3)"
        and n3t: "node_at w3 tp = None"
        and n3f: "node_at w3 fp = Some (File ''provisioned'')"
        and v3: "nv_store_path w3 = nv_store_path w2'"
        by blast
      \<comment> \<open>the status probe\<close>
      from others obtain pd pdf pdd where
        "puflib_get_nv_store_path (name MODULE_INFO) STORAGE_FINAL_DIR w0 = Some pd"
        "puflib_get_nv_store_path (name MODULE_INFO) STORAGE_DISABLED_FILE w0 = Some pdf"
        "puflib_get_nv_store_path (name MODULE_INFO) STORAGE_DISABLED_DIR w0 = Some pdd"
        by auto
      with fp v3 v2' have paths:
        "puflib_get_nv_store_path (name MODULE_INFO) STORAGE_FINAL_FILE w3 = Some fp"
        "puflib_get_nv_store_path (name MODULE_INFO) STORAGE_FINAL_DIR w3 = Some pd"
        "puflib_get_nv_store_path (name MODULE_INFO) STORAGE_DISABLED_FILE w3 = Some pdf"
        "puflib_get_nv_store_path (name MODULE_INFO) STORAGE_DISABLED_DIR w3 = Some pdd"
        by (simp_all add: puflib_get_nv_store_path_def)
      have "MODULE_PROVISIONED \<in>
              (if is_file (node_at w3 pdf) \<or> node_at w3 pdd = Some Dir
                then {MODULE_PROVISIONED, MODULE_DISABLED} else {}) \<union>
               (if is_file (node_at w3 fp) \<or> node_at w3 pd = Some Dir
                then {MODULE_PROVISIONED} else {})"
        using n3f by (simp add: is_file_def)
      with module_status_value(1) [OF paths]
      have st: "\<exists>flags. fst (puflib_module_status MODULE_INFO w3) = MODULE_STATUS flags \<and>
                      MODULE_PROVISIONED \<in> flags"
        by blast
      from c3 n3t n3f st show ?thesis by blast
    qed
    from n2 [of tp] have "node_at w2 tp = Some (File (''2'' @ [CHR 0x0A]))" by simp
    with c2 third show ?thesis by blast
  qed
  from c1 n1 second show ?thesis by blast
qed

theorem provision_round_trip_witness:
  "\<exists>w1 w2 w3.
     provision ''stack bytes'' empty_world = Some (PROVISION_INCOMPLETE, w1) \<and>
     node_at w1 temp_path = Some (File (''1'' @ [CHR 0x0A])) \<and>
     provision [] (fresh_process w1) = Some (PROVISION_INCOMPLETE, w2) \<and>
     node_at w2 temp_path = Some (File (''2'' @ [CHR 0x0A])) \<and>
     provision [] (fresh_process w2) = Some (PROVISION_COMPLETE, w3) \<and>
     node_at w3 temp_path = None \<and>
     node_at w3 final_path = Some (File ''provisioned'') \<and>
     (\<exists>flags. fst (puflib_module_status MODULE_INFO w3) = MODULE_STATUS flags \<and>
              MODULE_PROVISIONED \<in> flags)"
proof -
  have tp: "puflib_get_nv_store_path (name MODULE_INFO) STORAGE_TEMP_FILE empty_world
              = Some temp_path"
    and fp: "puflib_get_nv_store_path (name MODULE_INFO) STORAGE_FINAL_FILE empty_world
              = Some final_path"
    and others:
      "puflib_get_nv_store_path (name MODULE_INFO) STORAGE_FINAL_DIR empty_world \<noteq> None \<and>
       puflib_get_nv_store_path (name MODULE_INFO) STORAGE_DISABLED_FILE empty_world \<noteq> None \<and>
       puflib_get_nv_store_path (name MODULE_INFO) STORAGE_DISABLED_DIR empty_world \<noteq> None"
    by (simp_all add: platform_defs example_defs)
  have empty: "node_at empty_world temp_path = None \<and> node_at empty_world final_path = None"
    by (simp add: node_at_def example_defs)
  have anc: "\<forall>d. strict_prefix d temp_path \<or> strict_prefix d final_path \<longrightarrow>
                 node_at empty_world d = None \<or> node_at empty_world d = Some Dir"
    by (simp add: node_at_def example_defs)
  have unrel: "\<not> prefix temp_path final_path \<and> \<not> prefix final_path temp_path"
    by (simp add: temp_path_def final_path_def)
  have nofault: "\<forall>op q. faults empty_world op q = None"
    by (simp add: example_defs)
  have inst: "STATUS_CALLBACK empty_world = Some HANDLER"
    by (simp add: example_defs)
  have fresh: "same_storage w (fresh_process w) \<and>
               STATUS_CALLBACK (fresh_process w) = Some HANDLER" for w
    by (simp add: same_storage_def fresh_process_def puflib_set_status_handler_def)
  from provision_round_trip
         [OF tp fp others empty anc unrel nofault inst,
          where ?b1.0 = "''stack bytes''" and ?b2.0 = "[]" and ?b3.0 = "[]"]
  obtain w1 where c1: "provision ''stack bytes'' empty_world = Some (PROVISION_INCOMPLETE, w1)"
    and n1: "node_at w1 temp_path = Some (File (''1'' @ [CHR 0x0A]))"
    and r1: "\<forall>w1'. same_storage w1 w1' \<and> STATUS_CALLBACK w1' = Some HANDLER \<longrightarrow>
              (\<exists>w2. provision [] w1' = Some (PROVISION_INCOMPLETE, w2) \<and>
                 node_at w2 temp_path = Some (File (''2'' @ [CHR 0x0A])) \<and>
                 (\<forall>w2'. same_storage w2 w2' \<and> STATUS_CALLBACK w2' = Some HANDLER \<longrightarrow>
                    (\<exists>w3. provision [] w2' = Some (PROVISION_COMPLETE, w3) \<and>
                       node_at w3 temp_path = None \<and>
                       node_at w3 final_path = Some (File ''provisioned'') \<and>
                       (\<exists>flags. fst (puflib_module_status MODULE_INFO w3) = MODULE_STATUS flags \<and>
                                MODULE_PROVISIONED \<in> flags))))"
    by blast
  from r1 fresh [of w1]
  obtain w2 where c2: "provision [] (fresh_process w1) = Some (PROVISION_INCOMPLETE, w2)"
    and n2: "node_at w2 temp_path = Some (File (''2'' @ [CHR 0x0A]))"
    and r2: "\<forall>w2'. same_storage w2 w2' \<and> STATUS_CALLBACK w2' = Some HANDLER \<longrightarrow>
                    (\<exists>w3. provision [] w2' = Some (PROVISION_COMPLETE, w3) \<and>
                       node_at w3 temp_path = None \<and>
                       node_at w3 final_path = Some (File ''provisioned'') \<and>
                       (\<exists>flags. fst (puflib_module_status MODULE_INFO w3) = MODULE_STATUS flags \<and>
                                MODULE_PROVISIONED \<in> flags))"
    by blast
  from r2 fresh [of w2]
  obtain w3 where c3: "provision [] (fresh_process w2) = Some (PROVISION_COMPLETE, w3)"
    and n3: "node_at w3 temp_path = None"
      "node_at w3 final_path = Some (File ''provisioned'')"
      "\<exists>flags. fst (puflib_module_status MODULE_INFO w3) = MODULE_STATUS flags \<and>
                MODULE_PROVISIONED \<in> flags"
    by blast
  from c1 n1 c2 n2 c3 n3 show ?thesis by blast
qed

section \<open>Module status and deprovisioning\<close>

text \<open>
  C8: the result of \<open>puflib_module_status\<close> is a function of four probes and
  nothing else. With all four paths derived, it has \<open>MODULE_PROVISIONED\<close> and
  \<open>MODULE_DISABLED\<close> together when a disabled store of either shape is there,
  \<open>MODULE_PROVISIONED\<close> when a final store of either shape is there, and no flag
  when none is; the file system is not changed. When one of the paths cannot be
  derived the result is \<open>MODULE_STATUS_ERROR\<close>.
\<close>

theorem puflib_module_status_probes:
  "(puflib_get_nv_store_path (name m) STORAGE_FINAL_FILE w = Some path_f \<and>
    puflib_get_nv_store_path (name m) STORAGE_FINAL_DIR w = Some path_d \<and>
    puflib_get_nv_store_path (name m) STORAGE_DISABLED_FILE w = Some path_dis_f \<and>
    puflib_get_nv_store_path (name m) STORAGE_DISABLED_DIR w = Some path_dis_d \<longrightarrow>
      fst (puflib_module_status m w) =
        MODULE_STATUS
          ((if is_file (node_at w path_dis_f) \<or> node_at w path_dis_d = Some Dir
            then {MODULE_PROVISIONED, MODULE_DISABLED} else {}) \<union>
           (if is_file (node_at w path_f) \<or> node_at w path_d = Some Dir
            then {MODULE_PROVISIONED} else {})) \<and>
      fs (snd (puflib_module_status m w)) = fs w) \<and>
   (puflib_get_nv_store_path (name m) STORAGE_FINAL_FILE w = None \<or>
    puflib_get_nv_store_path (name m) STORAGE_FINAL_DIR w = None \<or>
    puflib_get_nv_store_path (name m) STORAGE_DISABLED_FILE w = None \<or>
    puflib_get_nv_store_path (name m) STORAGE_DISABLED_DIR w = None \<longrightarrow>
      fst (puflib_module_status m w) = MODULE_STATUS_ERROR)"
proof -
  have err: "fst (puflib_module_status m w) = MODULE_STATUS_ERROR"
    if "puflib_get_nv_store_path (name m) STORAGE_FINAL_FILE w = None \<or>
        puflib_get_nv_store_path (name m) STORAGE_FINAL_DIR w = None \<or>
        puflib_get_nv_store_path (name m) STORAGE_DISABLED_FILE w = None \<or>
        puflib_get_nv_store_path (name m) STORAGE_DISABLED_DIR w = None"
    using that
    by (auto simp add: puflib_module_status_def split: option.splits)
  from module_status_value [of m w path_f path_d path_dis_f path_dis_d] err
  show ?thesis by blast
qed

theorem puflib_module_status_probes_witness:
  "fst (puflib_module_status MODULE_INFO disabled_file_world)
     = MODULE_STATUS {MODULE_PROVISIONED, MODULE_DISABLED} \<and>
   fst (puflib_module_status MODULE_INFO disabled_dir_world)
     = MODULE_STATUS {MODULE_PROVISIONED, MODULE_DISABLED} \<and>
   fst (puflib_module_status MODULE_INFO empty_world) = MODULE_STATUS {} \<and>
   fst (puflib_module_status MODULE_INFO rootless_world) = MODULE_STATUS_ERROR"
proof -
  have p: "puflib_get_nv_store_path (name MODULE_INFO) t disabled_file_world
             = Some [''puflib'', ''puflibtest'', kind_name t]"
          "puflib_get_nv_store_path (name MODULE_INFO) t disabled_dir_world
             = Some [''puflib'', ''puflibtest'', kind_name t]"
          "puflib_get_nv_store_path (name MODULE_INFO) t empty_world
             = Some [''puflib'', ''puflibtest'', kind_name t]"
          "puflib_get_nv_store_path (name MODULE_INFO) t rootless_world = None" for t
    by (simp_all add: puflib_get_nv_store_path_def example_defs disabled_file_world_def disabled_dir_world_def rootless_world_def)
  have n: "node_at disabled_file_world [''puflib'', ''puflibtest'', kind_name t]
             = (if t = STORAGE_DISABLED_FILE then Some (File []) else None)"
          "node_at disabled_dir_world [''puflib'', ''puflibtest'', kind_name t]
             = (if t = STORAGE_DISABLED_DIR then Some Dir else None)"
          "node_at empty_world [''puflib'', ''puflibtest'', kind_name t] = None" for t
    by (cases t; simp add: node_at_def example_defs disabled_file_world_def disabled_dir_world_def rootless_world_def)+
  have a: "fst (puflib_module_status MODULE_INFO disabled_file_world)
             = MODULE_STATUS {MODULE_PROVISIONED, MODULE_DISABLED}"
    using puflib_module_status_probes
            [of MODULE_INFO disabled_file_world
                "[''puflib'', ''puflibtest'', kind_name STORAGE_FINAL_FILE]"
                "[''puflib'', ''puflibtest'', kind_name STORAGE_FINAL_DIR]"
                "[''puflib'', ''puflibtest'', kind_name STORAGE_DISABLED_FILE]"
                "[''puflib'', ''puflibtest'', kind_name STORAGE_DISABLED_DIR]"]
    by (simp add: p n is_file_def)
  have b: "fst (puflib_module_status MODULE_INFO disabled_dir_world)
             = MODULE_STATUS {MODULE_PROVISIONED, MODULE_DISABLED}"
    using puflib_module_status_probes
            [of MODULE_INFO disabled_dir_world
                "[''puflib'', ''puflibtest'', kind_name STORAGE_FINAL_FILE]"
                "[''puflib'', ''puflibtest'', kind_name STORAGE_FINAL_DIR]"
                "[''puflib'', ''puflibtest'', kind_name STORAGE_DISABLED_FILE]"
                "[''puflib'', ''puflibtest'', kind_name STORAGE_DISABLED_DIR]"]
    by (simp add: p n is_file_def)
  have c: "fst (puflib_module_status MODULE_INFO empty_world) = MODULE_STATUS {}"
    using puflib_module_status_probes
            [of MODULE_INFO empty_world
                "[''puflib'', ''puflibtest'', kind_name STORAGE_FINAL_FILE]"
                "[''puflib'', ''puflibtest'', kind_name STORAGE_FINAL_DIR]"
                "[''puflib'', ''puflibtest'', kind_name STORAGE_DISABLED_FILE]"
                "[''puflib'', ''puflibtest'', kind_name STORAGE_DISABLED_DIR]"]
    by (simp add: p n is_file_def)
  have d: "fst (puflib_module_status MODULE_INFO rootless_world) = MODULE_STATUS_ERROR"
    using puflib_module_status_probes [of MODULE_INFO rootless_world]
    by (simp add: p)
  from a b c d show ?thesis by simp
qed

text \<open>
  C10: \<open>puflib_deprovision\<close> looks both final stores up, then removes the file
  and the directory tree that are there. When it returns False, each of the two
  that existed is gone. When it returns True, a removal it needed failed, and the
  world it returns is the one that removal left: \<^verbatim>\<open>errno\<close> is the error of the
  removal, and nothing is removed after the failure.
\<close>

theorem deprovision_removes:
  assumes dp: "puflib_deprovision m w = (failed, w')"
  shows "let w2 = snd (puflib_get_nv_store m STORAGE_FINAL_DIR
                        (snd (puflib_get_nv_store m STORAGE_FINAL_FILE w)))
         in fs w2 = fs w \<and> faults w2 = faults w \<and>
            (\<not> failed \<longrightarrow>
               (\<forall>p. puflib_get_nv_store_path (name m) STORAGE_FINAL_FILE w = Some p \<and>
                    is_file (node_at w p) \<longrightarrow> node_at w' p = None) \<and>
               (\<forall>d. puflib_get_nv_store_path (name m) STORAGE_FINAL_DIR w = Some d \<and>
                    node_at w d = Some Dir \<longrightarrow> node_at w' d = None)) \<and>
            (failed \<longrightarrow>
               (\<exists>p. puflib_get_nv_store_path (name m) STORAGE_FINAL_FILE w = Some p \<and>
                    is_file (node_at w p) \<and> remove_c p w2 = (True, w')) \<or>
               (\<exists>d w3. puflib_get_nv_store_path (name m) STORAGE_FINAL_DIR w = Some d \<and>
                    node_at w d = Some Dir \<and>
                    (w3 = w2 \<or> (\<exists>p. remove_c p w2 = (False, w3))) \<and>
                    puflib_delete_tree d w3 = (True, w')))"
proof -
  obtain rf w1 where g1: "puflib_get_nv_store m STORAGE_FINAL_FILE w = (rf, w1)"
    by (cases "puflib_get_nv_store m STORAGE_FINAL_FILE w")
  obtain rd w2 where g2: "puflib_get_nv_store m STORAGE_FINAL_DIR w1 = (rd, w2)"
    by (cases "puflib_get_nv_store m STORAGE_FINAL_DIR w1")
  have q1: "quiet w w1" using quiet_get_nv_store [of w m STORAGE_FINAL_FILE] g1 by simp
  have q2: "quiet w1 w2" using quiet_get_nv_store [of w1 m STORAGE_FINAL_DIR] g2 by simp
  have fs1: "fs w1 = fs w" using get_nv_store_fs [of m STORAGE_FINAL_FILE w] g1 by simp
  have fs2: "fs w2 = fs w" using get_nv_store_fs [of m STORAGE_FINAL_DIR w1] g2 fs1 by simp
  have fa2: "faults w2 = faults w" using quietD(1) [OF q1] quietD(1) [OF q2] by simp
  have n1: "node_at w1 q = node_at w q" for q using fs1 by (rule node_at_fs_cong)
  have n2: "node_at w2 q = node_at w q" for q using fs2 by (rule node_at_fs_cong)
  have rf: "rf = (case puflib_get_nv_store_path (name m) STORAGE_FINAL_FILE w of
                    None \<Rightarrow> None
                  | Some p \<Rightarrow> if is_file (node_at w p) then Some p else None)"
    using get_nv_store_result [of m STORAGE_FINAL_FILE w] g1 by (simp split: option.splits)
  have rd: "rd = (case puflib_get_nv_store_path (name m) STORAGE_FINAL_DIR w of
                    None \<Rightarrow> None
                  | Some d \<Rightarrow> if node_at w d = Some Dir then Some d else None)"
    using get_nv_store_result [of m STORAGE_FINAL_DIR w1] g2 n1 quietD(2) [OF q1]
    by (simp add: puflib_get_nv_store_path_def split: option.splits)
  define fr where "fr = (case rf of Some p \<Rightarrow> remove_c p w2 | None \<Rightarrow> (False, w2))"
  obtain err_f w3 where fr3: "fr = (err_f, w3)" by (cases fr)
  have w3_alt: "w3 = w2 \<or> (\<exists>p. remove_c p w2 = (False, w3))" if "\<not> err_f"
    using fr3 that by (cases rf) (auto simp add: fr_def)
  have file_gone: "node_at w3 p = None"
    if "\<not> err_f" "puflib_get_nv_store_path (name m) STORAGE_FINAL_FILE w = Some p"
       "is_file (node_at w p)" for p
    using fr3 that rf remove_c_success [of p w2 w3]
    by (simp add: fr_def node_at_del_node)
  have dpeq: "puflib_deprovision m w =
                (if err_f then (True, w3)
                 else (case rd of
                         Some d \<Rightarrow>
                           (case puflib_delete_tree d w3 of
                              (True, w4) \<Rightarrow> (True, w4)
                            | (False, w4) \<Rightarrow> (False, w4))
                       | None \<Rightarrow> (False, w3)))"
    using g1 g2 fr3 by (simp add: puflib_deprovision_def fr_def [symmetric])
  have part_ok: "node_at w' p = None"
    if "\<not> failed" "puflib_get_nv_store_path (name m) STORAGE_FINAL_FILE w = Some p"
       "is_file (node_at w p)" for p
  proof -
    from that(1) dp dpeq have ne: "\<not> err_f" by (auto split: if_splits)
    have g: "node_at w3 p = None" using file_gone [OF ne that(2,3)] .
    show ?thesis
    proof (cases rd)
      case None
      with dp dpeq ne g show ?thesis by simp
    next
      case (Some d)
      obtain b w4 where t: "puflib_delete_tree d w3 = (b, w4)"
        by (cases "puflib_delete_tree d w3")
      with dp dpeq ne Some have "w' = w4" by (cases b) simp_all
      with t delete_tree_none [OF g, of d] show ?thesis by simp
    qed
  qed
  have part_dir: "node_at w' d = None"
    if "\<not> failed" "puflib_get_nv_store_path (name m) STORAGE_FINAL_DIR w = Some d"
       "node_at w d = Some Dir" for d
  proof -
    from that(1) dp dpeq have ne: "\<not> err_f" by (auto split: if_splits)
    from that(2,3) rd have rd': "rd = Some d" by simp
    obtain b w4 where t: "puflib_delete_tree d w3 = (b, w4)"
      by (cases "puflib_delete_tree d w3")
    with dp dpeq ne rd' that(1) have "b = False" "w' = w4" by (cases b; simp)+
    with t delete_tree_success [of d w3 w4] show ?thesis by simp
  qed
  have part_fail:
    "(\<exists>p. puflib_get_nv_store_path (name m) STORAGE_FINAL_FILE w = Some p \<and>
          is_file (node_at w p) \<and> remove_c p w2 = (True, w')) \<or>
     (\<exists>d w3. puflib_get_nv_store_path (name m) STORAGE_FINAL_DIR w = Some d \<and>
          node_at w d = Some Dir \<and>
          (w3 = w2 \<or> (\<exists>p. remove_c p w2 = (False, w3))) \<and>
          puflib_delete_tree d w3 = (True, w'))"
    if failed
  proof (cases err_f)
    case True
    with dp dpeq have w': "w' = w3" by simp
    from True fr3 obtain p where "rf = Some p" and "remove_c p w2 = (True, w3)"
      by (cases rf) (auto simp add: fr_def)
    with rf w' show ?thesis by (auto split: option.splits if_splits)
  next
    case False
    with dp dpeq that obtain d where rd': "rd = Some d"
      by (cases rd) auto
    obtain b w4 where t: "puflib_delete_tree d w3 = (b, w4)"
      by (cases "puflib_delete_tree d w3")
    with dp dpeq False rd' that have "b = True" "w' = w4" by (cases b; simp)+
    with t have "puflib_delete_tree d w3 = (True, w')" by simp
    moreover from rd rd' have "puflib_get_nv_store_path (name m) STORAGE_FINAL_DIR w = Some d"
      and "node_at w d = Some Dir" by (auto split: option.splits if_splits)
    ultimately show ?thesis using w3_alt [OF False] by blast
  qed
  show ?thesis
    using g1 g2 fs2 fa2 part_ok part_dir part_fail by (simp add: Let_def)
qed



theorem deprovision_removes_witness:
  "fst (puflib_deprovision MODULE_INFO both_final_world) = False \<and>
   node_at (snd (puflib_deprovision MODULE_INFO both_final_world)) final_path = None \<and>
   node_at (snd (puflib_deprovision MODULE_INFO both_final_world))
     [''puflib'', ''puflibtest'', ''final_dir''] = None \<and>
   fst (puflib_deprovision MODULE_INFO locked_file_world) = True \<and>
   errno (snd (puflib_deprovision MODULE_INFO locked_file_world)) = EPERM \<and>
   node_at (snd (puflib_deprovision MODULE_INFO locked_file_world)) final_path
     = Some (File ''provisioned'') \<and>
   node_at (snd (puflib_deprovision MODULE_INFO locked_file_world))
     [''puflib'', ''puflibtest'', ''final_dir''] = Some Dir"
proof -
  have a: "puflib_deprovision MODULE_INFO both_final_world =
     (False, both_final_world\<lparr>fs := [([''puflib''], Dir), ([''puflib'', ''puflibtest''], Dir)]\<rparr>)"
    by (simp add: os_defs platform_defs puflib_defs example_defs both_final_world_def)
  have b: "puflib_deprovision MODULE_INFO locked_file_world
             = (True, locked_file_world\<lparr>errno := EPERM\<rparr>)"
    by (simp add: os_defs platform_defs puflib_defs example_defs both_final_world_def
          locked_file_world_def)
  have pf: "puflib_get_nv_store_path (name MODULE_INFO) STORAGE_FINAL_FILE both_final_world
              = Some final_path"
    and pd: "puflib_get_nv_store_path (name MODULE_INFO) STORAGE_FINAL_DIR both_final_world
              = Some [''puflib'', ''puflibtest'', ''final_dir'']"
    and nf: "is_file (node_at both_final_world final_path)"
    and nd: "node_at both_final_world [''puflib'', ''puflibtest'', ''final_dir''] = Some Dir"
    by (simp_all add: platform_defs example_defs both_final_world_def node_at_def is_file_def)
  have l: "node_at (locked_file_world\<lparr>errno := EPERM\<rparr>) final_path = Some (File ''provisioned'')"
    "node_at (locked_file_world\<lparr>errno := EPERM\<rparr>) [''puflib'', ''puflibtest'', ''final_dir'']
       = Some Dir"
    by (simp_all add: example_defs both_final_world_def locked_file_world_def node_at_def)
  show ?thesis
    using deprovision_removes [OF a] deprovision_removes [OF b] pf pd nf nd l a b
    by (simp add: Let_def)
qed


end
